theory Spec2Isabelle
  imports Complex_Main "HOL-Library.AList"
begin

section \<open>Python values and errors\<close>

text \<open>
  The control plane of the standalone backend is Python. Exceptions are values of
  \<open>py_error\<close>; a function that can raise returns \<open>py_error + 'a\<close> (\<open>Inl\<close> the
  exception). Configuration values and job payloads arrive as JSON, so they are
  dynamically typed: \<open>pyval\<close>, with a dictionary as an association list in insertion order.
  Time stamps (\<open>time.time()\<close>) are real numbers.
\<close>

datatype py_error =
    ValueError
  | IndexError
  | KeyError
  | TypeError
  | AttributeError
  | NameError
  | ModuleNotFoundError
  | Exception string

datatype pyval =
    PNone
  | PBool bool
  | PInt int
  | PFloat real
  | PStr string
  | PList "pyval list"
  | PDict "(string \<times> pyval) list"

text \<open>Truth value of an object in a condition (\<open>if x:\<close>, \<open>x and y\<close>).\<close>

fun py_truthy :: "pyval \<Rightarrow> bool" where
  "py_truthy PNone = False"
| "py_truthy (PBool b) = b"
| "py_truthy (PInt i) = (i \<noteq> 0)"
| "py_truthy (PFloat r) = (r \<noteq> 0)"
| "py_truthy (PStr s) = (s \<noteq> [])"
| "py_truthy (PList xs) = (xs \<noteq> [])"
| "py_truthy (PDict kvs) = (kvs \<noteq> [])"

text \<open>
  \<open>x == 'literal'\<close>: a value compares equal to a string literal exactly when it is that
  string; \<open>False == 'False'\<close> and \<open>None == 'False'\<close> are both false.
\<close>

definition py_eq_str :: "pyval \<Rightarrow> string \<Rightarrow> bool" where
  "py_eq_str v s = (v = PStr s)"

text \<open>\<open>isinstance(x, dict)\<close>.\<close>

fun is_dict :: "pyval \<Rightarrow> bool" where
  "is_dict (PDict kvs) = True"
| "is_dict v = False"

text \<open>
  \<open>d[k]\<close> with a string key: KeyError when a dictionary lacks the key, TypeError on
  every other type (\<open>None\<close>, numbers, and strings and lists, whose indices must be
  integers).
\<close>

fun py_getitem :: "pyval \<Rightarrow> string \<Rightarrow> py_error + pyval" where
  "py_getitem (PDict kvs) k =
     (case map_of kvs k of None \<Rightarrow> Inl KeyError | Some v \<Rightarrow> Inr v)"
| "py_getitem v k = Inl TypeError"

text \<open>\<open>d.get(k, default)\<close> on a dictionary.\<close>

definition dict_get :: "(string \<times> pyval) list \<Rightarrow> string \<Rightarrow> pyval \<Rightarrow> pyval" where
  "dict_get kvs k d = (case map_of kvs k of None \<Rightarrow> d | Some v \<Rightarrow> v)"

text \<open>
  A value used in float arithmetic (\<open>x - t\<close>, \<open>x / 10\<close>, \<open>t < x\<close> with \<open>t\<close> a float):
  \<open>bool\<close> and \<open>int\<close> are converted, anything else raises TypeError.
\<close>

fun py_num :: "pyval \<Rightarrow> py_error + real" where
  "py_num (PBool b) = Inr (if b then 1 else 0)"
| "py_num (PInt i) = Inr (of_int i)"
| "py_num (PFloat r) = Inr r"
| "py_num v = Inl TypeError"

text \<open>\<open>int(x)\<close> of a float truncates towards zero.\<close>

definition py_trunc :: "real \<Rightarrow> int" where
  "py_trunc x = (if 0 \<le> x then \<lfloor>x\<rfloor> else \<lceil>x\<rceil>)"

text \<open>
  A value used where an integer is required (\<open>range\<close>, a list index): \<open>int\<close>, or
  \<open>bool\<close> as 0 and 1; a float or anything else raises TypeError.
\<close>

fun py_index :: "pyval \<Rightarrow> py_error + int" where
  "py_index (PInt i) = Inr i"
| "py_index (PBool b) = Inr (if b then 1 else 0)"
| "py_index v = Inl TypeError"

text \<open>
  \<open>xs[i]\<close> on a list with an integer index: a negative index counts from the end, an
  index out of range raises IndexError.
\<close>

definition list_index :: "'a list \<Rightarrow> int \<Rightarrow> py_error + 'a" where
  "list_index xs i =
     (if 0 \<le> i \<and> i < int (length xs) then Inr (xs ! nat i)
      else if i < 0 \<and> - int (length xs) \<le> i then Inr (xs ! nat (int (length xs) + i))
      else Inl IndexError)"

subsection \<open>Decimal strings: \<open>int(s)\<close> and \<open>"{:05d}".format(i)\<close>\<close>

definition is_digit :: "char \<Rightarrow> bool" where
  "is_digit c = (48 \<le> (of_char c :: nat) \<and> (of_char c :: nat) \<le> 57)"

definition digit_val :: "char \<Rightarrow> nat" where
  "digit_val c = of_char c - 48"

definition digit_char :: "nat \<Rightarrow> char" where
  "digit_char d = char_of (48 + d)"

text \<open>
  A character is a code point below 256. The whitespace that \<open>int(s)\<close> drops at both
  ends of a string is tab to carriage return (9 to 13), the space (32) and, beyond ASCII,
  U+0085 and U+00A0; the separators 28 to 31 are not dropped.
\<close>

definition is_space :: "char \<Rightarrow> bool" where
  "is_space c =
     (let n = (of_char c :: nat) in (9 \<le> n \<and> n \<le> 13) \<or> n = 32 \<or> n = 133 \<or> n = 160)"

definition strip :: "string \<Rightarrow> string" where
  "strip s = rev (dropWhile is_space (rev (dropWhile is_space s)))"

text \<open>
  The digits after the first one; a single underscore is allowed between two digits.
\<close>

fun parse_digits :: "nat \<Rightarrow> string \<Rightarrow> nat option" where
  "parse_digits acc [] = Some acc"
| "parse_digits acc (c # cs) =
     (if is_digit c then parse_digits (10 * acc + digit_val c) cs
      else if c = CHR ''_'' then
        (case cs of
           [] \<Rightarrow> None
         | d # ds \<Rightarrow> if is_digit d then parse_digits (10 * acc + digit_val d) ds else None)
      else None)"

definition parse_unsigned :: "string \<Rightarrow> nat option" where
  "parse_unsigned s =
     (case s of
        [] \<Rightarrow> None
      | c # cs \<Rightarrow> if is_digit c then parse_digits (digit_val c) cs else None)"

text \<open>
  \<open>int(s)\<close> for a string, base 10: surrounding whitespace is dropped, one sign is
  allowed, and anything that is not a decimal literal raises ValueError.
\<close>

definition py_int_str :: "string \<Rightarrow> py_error + int" where
  "py_int_str s =
     (case strip s of
        [] \<Rightarrow> Inl ValueError
      | c # cs \<Rightarrow>
          (if c = CHR ''-'' then
             (case parse_unsigned cs of None \<Rightarrow> Inl ValueError | Some n \<Rightarrow> Inr (- int n))
           else if c = CHR ''+'' then
             (case parse_unsigned cs of None \<Rightarrow> Inl ValueError | Some n \<Rightarrow> Inr (int n))
           else
             (case parse_unsigned (c # cs) of None \<Rightarrow> Inl ValueError | Some n \<Rightarrow> Inr (int n))))"

text \<open>The value of a digit string read so far, extended by one digit.\<close>

definition dec_step :: "nat \<Rightarrow> char \<Rightarrow> nat" where
  "dec_step a c = 10 * a + digit_val c"

text \<open>\<open>int(x)\<close> for any value.\<close>

fun py_int :: "pyval \<Rightarrow> py_error + int" where
  "py_int (PInt i) = Inr i"
| "py_int (PBool b) = Inr (if b then 1 else 0)"
| "py_int (PFloat r) = Inr (py_trunc r)"
| "py_int (PStr s) = py_int_str s"
| "py_int v = Inl TypeError"

function digits_of :: "nat \<Rightarrow> string" where
  "digits_of n =
     (if n < 10 then [digit_char n] else digits_of (n div 10) @ [digit_char (n mod 10)])"
  by pat_completeness auto
termination
  by (relation "measure id") auto

declare digits_of.simps [simp del]

text \<open>\<open>"{:05d}".format(i)\<close> for \<open>i \<ge> 0\<close>: decimal, padded with zeros to five characters.\<close>

definition fmt_05d :: "nat \<Rightarrow> string" where
  "fmt_05d n = (let ds = digits_of n in replicate (5 - length ds) (CHR ''0'') @ ds)"

section \<open>Chunk partition: \<open>iterchunks\<close> (master_controller.py)\<close>

text \<open>
  \<^verbatim>\<open>
  def iterchunks(lst, n):
      for i in range(0, len(lst), n):
          yield lst[i:i + n]
  \<close>
  \<open>range(0, len(lst), n)\<close> raises ValueError for \<open>n = 0\<close>, is empty for \<open>n < 0\<close>, and
  runs over \<open>0, n, 2n, ...\<close> below \<open>len(lst)\<close> for \<open>n > 0\<close>. For \<open>0 \<le> i\<close> and \<open>0 < n\<close> the
  slice \<open>lst[i:i + n]\<close> is \<open>take n (drop i lst)\<close>.
\<close>

function chunks_from :: "nat \<Rightarrow> nat \<Rightarrow> 'a list \<Rightarrow> 'a list list" where
  "chunks_from i n lst =
     (if n = 0 \<or> length lst \<le> i then []
      else take n (drop i lst) # chunks_from (i + n) n lst)"
  by pat_completeness auto
termination
  by (relation "measure (\<lambda>(i, n, lst). length lst - i)") auto

declare chunks_from.simps [simp del]

definition iterchunks :: "'a list \<Rightarrow> int \<Rightarrow> py_error + 'a list list" where
  "iterchunks lst n =
     (if n = 0 then Inl ValueError
      else if n < 0 then Inr []
      else Inr (chunks_from 0 (nat n) lst))"


section \<open>The standalone handler (standalone.py)\<close>

subsection \<open>Worker instances, the handler object and its collaborators\<close>

text \<open>
  A backend object stands for one VM instance. \<open>delete_on_dismantle\<close> is the attribute
  that \<open>init_keeper\<close> sets on the instance hosting the controller.
\<close>

record backend =
  instance_name :: string
  ip_address :: "string option"
  instance_id :: "string option"
  delete_on_dismantle :: bool

text \<open>The attributes of a \<open>StandaloneHandler\<close> object, as \<open>__init__\<close> sets them.\<close>

record StandaloneHandler =
  config :: "(string \<times> pyval) list"
  backend_name :: pyval
  runtime :: pyval
  is_lithops_worker :: bool
  start_timeout :: pyval
  auto_dismantle :: pyval
  disable_log_monitoring :: pyval
  hard_dismantle_timeout :: pyval
  soft_dismantle_timeout :: pyval
  use_http :: pyval
  encryption_key :: pyval
  local_runtime_load :: pyval
  exec_mode :: pyval
  backends :: "backend list"
  provided_backed :: bool

text \<open>
  Everything outside the two source files is a collaborator whose answers are inputs of
  the model: the instance API of the cloud provider, the SSH transport, the HTTP calls,
  the clock and the helpers imported from the rest of the package. A procedure answers
  \<open>None\<close> when it returns and \<open>Some e\<close> when it raises \<open>e\<close>.

  A readiness probe is observed as the clock reading taken before the loop and then, for
  each turn of the loop, the clock reading of the loop test together with the answer the
  readiness check gives if it is made in that turn.
\<close>

record world =
  w_is_lithops_worker :: bool
  w_import_backend :: "pyval \<Rightarrow> py_error option"
  w_StandaloneBackend :: "pyval \<Rightarrow> py_error + backend"
  w_backend_create :: "backend \<Rightarrow> string \<Rightarrow> string \<Rightarrow> py_error + backend"
  w_backend_start :: "backend \<Rightarrow> py_error option"
  w_backend_stop :: "backend \<Rightarrow> py_error option"
  w_backend_probe :: "backend \<Rightarrow> real \<times> (real \<times> bool) list"
  w_proxy_probe :: "backend \<Rightarrow> real \<times> (real \<times> bool) list"
  w_proxy_ready_now :: "backend \<Rightarrow> bool"
  w_setup_proxy :: "backend \<Rightarrow> py_error option"
  w_post_run :: "backend \<Rightarrow> pyval \<Rightarrow> py_error + pyval"
  w_create_job_key :: "pyval \<Rightarrow> pyval \<Rightarrow> py_error + string"
  w_verify_runtime_name :: "pyval \<Rightarrow> py_error option"
  w_localhost_run_job :: "pyval \<Rightarrow> py_error option"
  w_worker_setup :: "pyval \<Rightarrow> py_error option"
  w_worker_install :: "pyval \<Rightarrow> string \<Rightarrow> py_error option"

text \<open>The calls a function makes on its collaborators, in order.\<close>

datatype transport = DirectHttp | SshTunnel

datatype event =
    BackendCreate string string
  | BackendStart backend
  | BackendStop backend
  | SetupProxy backend
  | LogMonitorStarted string backend
  | PostRun transport backend pyval

fun is_create :: "event \<Rightarrow> bool" where
  "is_create (BackendCreate name_prefix name_suffix) = True"
| "is_create e = False"

fun is_monitor :: "event \<Rightarrow> bool" where
  "is_monitor (LogMonitorStarted job_key b) = True"
| "is_monitor e = False"

fun is_post :: "event \<Rightarrow> bool" where
  "is_post (PostRun tr b job_payload) = True"
| "is_post e = False"

text \<open>A list of calls with no instance creation, no log monitor and no post among them.\<close>

definition quiet :: "event list \<Rightarrow> bool" where
  "quiet ev = (\<not> list_ex is_create ev \<and> \<not> list_ex is_monitor ev \<and> \<not> list_ex is_post ev)"

text \<open>
  A function that polls returns \<open>None\<close> when the observations run out before the loop
  ends; otherwise the calls it made and its result.
\<close>

type_synonym 'a res = "(event list \<times> (py_error + 'a)) option"

definition bind_res :: "'a res \<Rightarrow> ('a \<Rightarrow> 'b res) \<Rightarrow> 'b res" where
  "bind_res m f =
     (case m of
        None \<Rightarrow> None
      | Some (ev, Inl e) \<Rightarrow> Some (ev, Inl e)
      | Some (ev, Inr x) \<Rightarrow>
          (case f x of None \<Rightarrow> None | Some (ev', r) \<Rightarrow> Some (ev @ ev', r)))"

definition raise :: "py_error \<Rightarrow> 'a res" where
  "raise e = Some ([], Inl e)"

definition return :: "'a \<Rightarrow> 'a res" where
  "return x = Some ([], Inr x)"

text \<open>A call on a collaborator that returns nothing: the call is recorded, then it may raise.\<close>

definition call :: "event \<Rightarrow> py_error option \<Rightarrow> unit res" where
  "call ev r = Some ([ev], case r of None \<Rightarrow> Inr () | Some e \<Rightarrow> Inl e)"

subsection \<open>Construction\<close>

text \<open>
  \<^verbatim>\<open>
  def create_backend_handler(self, instance_id=None, ip_address=None):
      sb_module = importlib.import_module(self.module_location)
      StandaloneBackend = getattr(sb_module, 'StandaloneBackend')
      backend = StandaloneBackend(self.config[self.backend_name])
      ...
      return backend
  \<close>
  Both callers in this file pass no argument. \<open>module_location\<close> is the backend name
  formatted into \<open>'lithops.standalone.backends.{}'\<close>, which works for any value; the
  import and the \<open>getattr\<close> come first and fail as the installation decides
  (\<open>w_import_backend\<close>, ModuleNotFoundError when there is no such module). Then the
  section of the backend is looked up in the configuration, whose keys are strings: a
  list or a dictionary as key is unhashable (TypeError), any other missing key raises
  KeyError. Any exception is logged and raised again.
\<close>

definition create_backend_handler ::
  "world \<Rightarrow> (string \<times> pyval) list \<Rightarrow> pyval \<Rightarrow> py_error + backend" where
  "create_backend_handler w cfg bname =
     (case w_import_backend w bname of
        Some e \<Rightarrow> Inl e
      | None \<Rightarrow>
          (case bname of
             PStr n \<Rightarrow>
               (case map_of cfg n of
                  None \<Rightarrow> Inl KeyError
                | Some section \<Rightarrow> w_StandaloneBackend w section)
           | PList xs \<Rightarrow> Inl TypeError
           | PDict kvs \<Rightarrow> Inl TypeError
           | _ \<Rightarrow> Inl KeyError))"

text \<open>
  \<open>StandaloneHandler.__init__\<close>: the attributes are read from the configuration, a
  backend object is built, and it becomes the pre-bound backend (\<open>provided_backed\<close>) when
  the mode is not \<open>'create'\<close> and the backend has both an IP address and an instance id.
\<close>

definition StandaloneHandler_init :: "world \<Rightarrow> pyval \<Rightarrow> py_error + StandaloneHandler" where
  "StandaloneHandler_init w standalone_config =
     (case standalone_config of
        PDict cfg \<Rightarrow>
          (case map_of cfg ''backend'' of
             None \<Rightarrow> Inl KeyError
           | Some bname \<Rightarrow>
          (case map_of cfg ''runtime'' of
             None \<Rightarrow> Inl KeyError
           | Some rt \<Rightarrow>
          (let uh = dict_get cfg ''use_http'' (PBool False);
               ek = dict_get cfg ''encryption_key'' PNone
           in if py_truthy uh \<and> \<not> py_truthy ek
              then Inl (Exception ''You must provide an encryption_key'')
              else
                (case create_backend_handler w cfg bname of
                   Inl e \<Rightarrow> Inl e
                 | Inr b \<Rightarrow>
                     (let em = dict_get cfg ''exec_mode'' (PStr ''consume'');
                          provided = (\<not> py_eq_str em ''create''
                                      \<and> ip_address b \<noteq> None \<and> instance_id b \<noteq> None)
                      in Inr \<lparr> config = cfg,
                               backend_name = bname,
                               runtime = rt,
                               is_lithops_worker = w_is_lithops_worker w,
                               start_timeout = dict_get cfg ''start_timeout'' (PInt 300),
                               auto_dismantle = dict_get cfg ''auto_dismantle'' PNone,
                               disable_log_monitoring =
                                 dict_get cfg ''disable_log_monitoring'' (PBool False),
                               hard_dismantle_timeout =
                                 dict_get cfg ''hard_dismantle_timeout'' PNone,
                               soft_dismantle_timeout =
                                 dict_get cfg ''soft_dismantle_timeout'' PNone,
                               use_http = uh,
                               encryption_key = ek,
                               local_runtime_load =
                                 dict_get cfg ''local_runtime_load'' (PBool False),
                               exec_mode = em,
                               backends = (if provided then [b] else []),
                               provided_backed = provided \<rparr>)))))
      | _ \<Rightarrow> Inl TypeError)"

subsection \<open>Dismantle\<close>

text \<open>
  \<^verbatim>\<open>
  def dismantle(self):
      for backend in self.backends:
          backend.stop()
  \<close>
  The loop has no condition and no exception handler: \<open>stop\<close> is called on each backend
  in list order, and an exception raised by one call ends the loop and leaves
  \<open>dismantle\<close>.
\<close>

fun stop_all :: "world \<Rightarrow> backend list \<Rightarrow> event list \<times> py_error option" where
  "stop_all w [] = ([], None)"
| "stop_all w (b # bs) =
     (case w_backend_stop w b of
        Some e \<Rightarrow> ([BackendStop b], Some e)
      | None \<Rightarrow> (case stop_all w bs of (ev, r) \<Rightarrow> (BackendStop b # ev, r)))"

definition dismantle :: "world \<Rightarrow> StandaloneHandler \<Rightarrow> event list \<times> py_error option" where
  "dismantle w h = stop_all w (backends h)"

subsection \<open>Readiness waits\<close>

text \<open>
  \<^verbatim>\<open>
  start = time.time()
  while(time.time() - start < self.start_timeout):
      if self._is_backend_ready(backend):
          return True
      time.sleep(5)
  self.dismantle()
  raise Exception('VM readiness {} probe expired. Check your VM'...)
  \<close>
  \<open>wait_loop\<close> is the loop: \<open>Some True\<close> when a check succeeds in time, \<open>Some False\<close>
  when the loop test fails, \<open>None\<close> when the observations end first.
\<close>

fun wait_loop :: "real \<Rightarrow> real \<Rightarrow> (real \<times> bool) list \<Rightarrow> bool option" where
  "wait_loop start timeout [] = None"
| "wait_loop start timeout ((t, ready) # obs) =
     (if t - start < timeout
      then (if ready then Some True else wait_loop start timeout obs)
      else Some False)"

definition wait_ready ::
  "world \<Rightarrow> StandaloneHandler \<Rightarrow> real \<times> (real \<times> bool) list \<Rightarrow> string \<Rightarrow> bool res" where
  "wait_ready w h probe msg =
     (case py_num (start_timeout h) of
        Inl e \<Rightarrow> raise e
      | Inr timeout \<Rightarrow>
          (case wait_loop (fst probe) timeout (snd probe) of
             None \<Rightarrow> None
           | Some True \<Rightarrow> return True
           | Some False \<Rightarrow>
               (case dismantle w h of
                  (ev, Some e) \<Rightarrow> Some (ev, Inl e)
                | (ev, None) \<Rightarrow> Some (ev, Inl (Exception msg)))))"

definition wait_backend_ready :: "world \<Rightarrow> StandaloneHandler \<Rightarrow> backend \<Rightarrow> bool res" where
  "wait_backend_ready w h b =
     wait_ready w h (w_backend_probe w b) ''VM readiness probe expired. Check your VM''"

definition wait_proxy_ready :: "world \<Rightarrow> StandaloneHandler \<Rightarrow> backend \<Rightarrow> bool res" where
  "wait_proxy_ready w h b =
     wait_ready w h (w_proxy_probe w b) ''Proxy readiness probe expired. Check your VM''"

text \<open>\<open>_start_backend\<close>: \<open>backend.start()\<close>, then the wait for SSH.\<close>

definition start_backend :: "world \<Rightarrow> StandaloneHandler \<Rightarrow> backend \<Rightarrow> bool res" where
  "start_backend w h b =
     bind_res (call (BackendStart b) (w_backend_start w b))
       (\<lambda>_. wait_backend_ready w h b)"

subsection \<open>Invocation\<close>

text \<open>
  \<open>_start_log_monitor\<close> computes the job key and starts the monitor thread only when
  the handler does not run on a worker:
  \<^verbatim>\<open>
  if not self.is_lithops_worker:
      Thread(target=log_monitor, daemon=True).start()
  \<close>
\<close>

definition start_log_monitor ::
  "world \<Rightarrow> StandaloneHandler \<Rightarrow> pyval \<Rightarrow> pyval \<Rightarrow> backend \<Rightarrow> unit res" where
  "start_log_monitor w h executor_id job_id b =
     (case w_create_job_key w executor_id job_id of
        Inl e \<Rightarrow> raise e
      | Inr job_key \<Rightarrow>
          (if \<not> is_lithops_worker h then Some ([LogMonitorStarted job_key b], Inr ())
           else return ()))"

text \<open>
  \<open>_single_invoke\<close>: make sure the proxy answers (starting the VM and waiting when it
  does not), start the log monitor when \<open>disable_log_monitoring == 'False'\<close>, post the
  payload to the proxy (over HTTP on a worker or with \<open>use_http\<close>, through SSH otherwise)
  and return the activation id of the response.
\<close>

definition single_invoke ::
  "world \<Rightarrow> StandaloneHandler \<Rightarrow> backend \<Rightarrow> pyval \<Rightarrow> pyval res" where
  "single_invoke w h b job_payload =
     (case py_getitem job_payload ''executor_id'' of
        Inl e \<Rightarrow> raise e
      | Inr executor_id \<Rightarrow>
     (case py_getitem job_payload ''job_id'' of
        Inl e \<Rightarrow> raise e
      | Inr job_id \<Rightarrow>
     (case w_create_job_key w executor_id job_id of
        Inl e \<Rightarrow> raise e
      | Inr job_key \<Rightarrow>
          bind_res
            (if \<not> w_proxy_ready_now w b
             then bind_res (start_backend w h b) (\<lambda>_. wait_proxy_ready w h b)
             else return True)
            (\<lambda>_. bind_res
               (if py_eq_str (disable_log_monitoring h) ''False''
                then start_log_monitor w h executor_id job_id b
                else return ())
               (\<lambda>_. let tr = (if is_lithops_worker h \<or> py_truthy (use_http h)
                               then DirectHttp else SshTunnel)
                     in (case w_post_run w b job_payload of
                           Inl e \<Rightarrow> Some ([PostRun tr b job_payload], Inl e)
                         | Inr response \<Rightarrow>
                             Some ([PostRun tr b job_payload],
                                   py_getitem response ''activationId'')))))))"

text \<open>
  \<open>create\<close>: build a backend object, create the instance, register it in
  \<open>self.backends\<close>, start it, install the proxy and wait for the proxy. The handler is
  returned as the call leaves it, also when the call raises.
\<close>

definition create ::
  "world \<Rightarrow> StandaloneHandler \<Rightarrow> string \<Rightarrow> string \<Rightarrow> (StandaloneHandler \<times> backend res) option"
  where
  "create w h name_prefix name_suffix =
     (case create_backend_handler w (config h) (backend_name h) of
        Inl e \<Rightarrow> Some (h, raise e)
      | Inr b0 \<Rightarrow>
          (case w_backend_create w b0 name_prefix name_suffix of
             Inl e \<Rightarrow> Some (h, Some ([BackendCreate name_prefix name_suffix], Inl e))
           | Inr b \<Rightarrow>
               (let h' = h\<lparr>backends := backends h @ [b]\<rparr>
                in Some (h',
                     bind_res (Some ([BackendCreate name_prefix name_suffix], Inr ()))
                       (\<lambda>_. bind_res (start_backend w h' b)
                          (\<lambda>_. bind_res (call (SetupProxy b) (w_setup_proxy w b))
                             (\<lambda>_. bind_res (wait_proxy_ready w h' b)
                                (\<lambda>_. return b))))))))"

text \<open>
  \<^verbatim>\<open>
  def _thread_invoke(self, lock, job_key, call_id, job_payload):
      backend = self.create(lock, job_key, call_id)
      job_payload['job_description']['call_id'] = call_id
      self._single_invoke(backend, job_payload)
  \<close>
\<close>

definition set_call_id :: "pyval \<Rightarrow> string \<Rightarrow> py_error + pyval" where
  "set_call_id job_payload call_id =
     (case job_payload of
        PDict kvs \<Rightarrow>
          (case map_of kvs ''job_description'' of
             None \<Rightarrow> Inl KeyError
           | Some (PDict jd) \<Rightarrow>
               Inr (PDict (AList.update ''job_description''
                             (PDict (AList.update ''call_id'' (PStr call_id) jd)) kvs))
           | Some _ \<Rightarrow> Inl TypeError)
      | _ \<Rightarrow> Inl TypeError)"

definition thread_invoke ::
  "world \<Rightarrow> StandaloneHandler \<Rightarrow> string \<times> string \<times> pyval \<Rightarrow>
   (StandaloneHandler \<times> pyval res) option" where
  "thread_invoke w h task =
     (case task of (job_key, call_id, job_payload) \<Rightarrow>
        (case create w h job_key call_id of
           None \<Rightarrow> None
         | Some (h', r) \<Rightarrow>
             Some (h',
               bind_res r
                 (\<lambda>b. case set_call_id job_payload call_id of
                         Inl e \<Rightarrow> raise e
                       | Inr job_payload' \<Rightarrow> single_invoke w h' b job_payload'))))"

text \<open>
  \<open>StandaloneHandler.run_job\<close>. With a pre-bound backend the job is invoked on
  \<open>self.backends[0]\<close> and the activation id is returned. Otherwise a pool of
  \<open>int(total_calls)\<close> threads is made (ValueError unless that is positive) and one
  \<open>_thread_invoke\<close> is submitted for each \<open>i\<close> in \<open>range(total_calls)\<close>, with call id
  \<open>"{:05d}".format(i)\<close> and a deep copy of the payload; the function then ends without a
  \<open>return\<close>, so its value is \<open>None\<close>. The result lists the submitted tasks beside the value.
\<close>

definition run_job ::
  "world \<Rightarrow> StandaloneHandler \<Rightarrow> pyval \<Rightarrow> ((string \<times> string \<times> pyval) list \<times> pyval) res" where
  "run_job w h job_payload =
     (if provided_backed h then
        (case backends h of
           [] \<Rightarrow> raise IndexError
         | b # _ \<Rightarrow> bind_res (single_invoke w h b job_payload) (\<lambda>act_id. return ([], act_id)))
      else
        (case py_getitem job_payload ''executor_id'' of
           Inl e \<Rightarrow> raise e
         | Inr executor_id \<Rightarrow>
        (case py_getitem job_payload ''job_id'' of
           Inl e \<Rightarrow> raise e
         | Inr job_id \<Rightarrow>
        (case w_create_job_key w executor_id job_id of
           Inl e \<Rightarrow> raise e
         | Inr job_key \<Rightarrow>
        (case py_getitem job_payload ''job_description'' of
           Inl e \<Rightarrow> raise e
         | Inr jd \<Rightarrow>
        (case py_getitem jd ''total_calls'' of
           Inl e \<Rightarrow> raise e
         | Inr total_calls \<Rightarrow>
        (case py_int total_calls of
           Inl e \<Rightarrow> raise e
         | Inr max_workers \<Rightarrow>
             (if max_workers \<le> 0 then raise ValueError
              else
                (case py_index total_calls of
                   Inl e \<Rightarrow> raise e
                 | Inr n \<Rightarrow>
                     return (map (\<lambda>i. (job_key, fmt_05d i, job_payload)) [0..<nat n],
                             PNone))))))))))"

text \<open>
  Every readiness wait of the world comes to an end: whatever the instance and the
  timeout, the observations reach a successful check or a loop test past the timeout.
\<close>

definition polls_end :: "world \<Rightarrow> bool" where
  "polls_end w =
     (\<forall>b timeout.
        wait_loop (fst (w_backend_probe w b)) timeout (snd (w_backend_probe w b)) \<noteq> None
      \<and> wait_loop (fst (w_proxy_probe w b)) timeout (snd (w_proxy_probe w b)) \<noteq> None)"

text \<open>
  The submitted tasks run on the threads of the pool. \<open>run_tasks\<close> is the schedule in
  which they run one after the other, each on the handler as the one before left it; it
  gives the calls and the result of each task.
\<close>

fun run_tasks ::
  "world \<Rightarrow> StandaloneHandler \<Rightarrow> (string \<times> string \<times> pyval) list \<Rightarrow>
   (StandaloneHandler \<times> (event list \<times> (py_error + pyval)) list) option" where
  "run_tasks w h [] = Some (h, [])"
| "run_tasks w h (task # tasks) =
     (case thread_invoke w h task of
        None \<Rightarrow> None
      | Some (h', None) \<Rightarrow> None
      | Some (h', Some er) \<Rightarrow>
          (case run_tasks w h' tasks of
             None \<Rightarrow> None
           | Some (h'', ers) \<Rightarrow> Some (h'', er # ers)))"

section \<open>The master controller (master_controller.py)\<close>

subsection \<open>Shared state\<close>

text \<open>
  The module's globals: \<open>last_usage_time\<close>, the job registry \<open>jobs\<close> (job key to
  \<open>'running'\<close> or \<open>'done'\<close>, in insertion order) and \<open>standalone_handler\<close>.
\<close>

record controller =
  last_usage_time :: real
  jobs :: "(string \<times> string) list"
  standalone_handler :: StandaloneHandler

subsection \<open>The budget keeper\<close>

text \<open>
  One turn of the \<open>while True\<close> loop of \<open>budget_keeper\<close>. The turn reads the clock at
  the loop head (\<open>t_loop\<close>) and, when it restarts the idle countdown, twice more
  (\<open>t_reset\<close> for the new \<open>last_usage_time\<close>, \<open>t_after\<close> for the elapsed time);
  \<open>done_file\<close> tells for which job keys the \<open>.done\<close> file exists. \<open>jobs_running\<close> is the
  loop's local flag.
\<close>

record tick_obs =
  t_loop :: real
  t_reset :: real
  t_after :: real
  done_file :: "string \<Rightarrow> bool"

datatype keeper_action = Sleep real | Dismantle "event list" "py_error option"

text \<open>
  \<^verbatim>\<open>
  if time_to_dismantle > 0:
      time.sleep(check_interval)
  else:
      try:
          standalone_handler.dismantle()
      except Exception as e:
          logger.info("Dismantle error {}".format(e))
  \<close>
  \<open>time.sleep\<close> raises ValueError for a negative length. An exception of \<open>dismantle\<close>
  is logged and the loop goes on.
\<close>

definition keeper_act :: "world \<Rightarrow> real \<Rightarrow> int \<Rightarrow> controller \<Rightarrow> py_error + keeper_action" where
  "keeper_act w check_interval time_to_dismantle c =
     (if time_to_dismantle > 0
      then (if check_interval < 0 then Inl ValueError else Inr (Sleep check_interval))
      else (case dismantle w (standalone_handler c) of (ev, r) \<Rightarrow> Inr (Dismantle ev r)))"

definition refresh_jobs :: "(string \<Rightarrow> bool) \<Rightarrow> (string \<times> string) list \<Rightarrow> (string \<times> string) list"
  where
  "refresh_jobs isfile js = map (\<lambda>(job_key, v). (job_key, if isfile job_key then ''done'' else v)) js"

definition fully_idle :: "controller \<Rightarrow> bool" where
  "fully_idle c =
     (length (jobs c) > 0 \<and> list_all (\<lambda>value. value = ''done'') (map snd (jobs c))
      \<and> py_truthy (auto_dismantle (standalone_handler c)))"

definition budget_keeper_tick ::
  "world \<Rightarrow> tick_obs \<Rightarrow> bool \<times> controller \<Rightarrow> (bool \<times> controller) \<times> (py_error + keeper_action)"
  where
  "budget_keeper_tick w ob st =
     (case st of (jobs_running, c) \<Rightarrow>
       (let time_since_last_usage = t_loop ob - last_usage_time c
        in case py_num (soft_dismantle_timeout (standalone_handler c)) of
             Inl e \<Rightarrow> ((jobs_running, c), Inl e)
           | Inr soft \<Rightarrow>
               (let check_interval = soft / 10;
                    c1 = c\<lparr>jobs := refresh_jobs (done_file ob) (jobs c)\<rparr>
                in if fully_idle c1 then
                     (if jobs_running then
                        (let c2 = c1\<lparr>last_usage_time := t_reset ob\<rparr>;
                             time_since_last_usage = t_after ob - last_usage_time c2
                         in ((False, c2),
                             keeper_act w check_interval
                               (py_trunc (soft - time_since_last_usage)) c2))
                      else
                        ((jobs_running, c1),
                         keeper_act w check_interval
                           (py_trunc (soft - time_since_last_usage)) c1))
                   else
                     (case py_num (hard_dismantle_timeout (standalone_handler c1)) of
                        Inl e \<Rightarrow> ((jobs_running, c1), Inl e)
                      | Inr hard \<Rightarrow>
                          ((True, c1),
                           keeper_act w check_interval
                             (py_trunc (hard - time_since_last_usage)) c1)))))"

text \<open>
  The loop over a finite run of turns, with no request served in between: the actions
  taken, and the exception that ended the thread if one did.
\<close>

fun budget_keeper ::
  "world \<Rightarrow> tick_obs list \<Rightarrow> bool \<times> controller \<Rightarrow>
   keeper_action list \<times> py_error option \<times> (bool \<times> controller)" where
  "budget_keeper w [] st = ([], None, st)"
| "budget_keeper w (ob # obs) st =
     (case budget_keeper_tick w ob st of
        (st', Inl e) \<Rightarrow> ([], Some e, st')
      | (st', Inr a) \<Rightarrow>
          (case budget_keeper w obs st' of (as, r, st'') \<Rightarrow> (a # as, r, st'')))"

subsection \<open>The \<open>/run\<close> endpoint\<close>

datatype response =
    Accepted string
  | NotADictionary
  | BadRuntime py_error
  | ServerError py_error

text \<open>
  \<open>run\<close>: \<open>message\<close> is the parsed body (\<open>None\<close> when it does not parse), \<open>now\<close> the
  clock reading, \<open>act_id\<close> the fresh activation id. A bad runtime name is answered with
  404 before any state is touched; after that every statement takes effect in order, and
  an exception leaves the state as the statements before it made it.
\<close>

definition run :: "world \<Rightarrow> real \<Rightarrow> string \<Rightarrow> pyval \<Rightarrow> controller \<Rightarrow> controller \<times> response" where
  "run w now act_id message c =
     (if py_truthy message \<and> \<not> is_dict message then (c, NotADictionary)
      else
        (case py_getitem message ''runtime_name'' of
           Inl e \<Rightarrow> (c, BadRuntime e)
         | Inr rt \<Rightarrow>
        (case w_verify_runtime_name w rt of
           Some e \<Rightarrow> (c, BadRuntime e)
         | None \<Rightarrow>
        (let c1 = c\<lparr>last_usage_time := now\<rparr>
         in case py_getitem message ''config'' of
              Inl e \<Rightarrow> (c1, ServerError e)
            | Inr cfg \<Rightarrow>
        (case py_getitem cfg ''standalone'' of
           Inl e \<Rightarrow> (c1, ServerError e)
         | Inr standalone_config \<Rightarrow>
        (case py_getitem standalone_config ''auto_dismantle'' of
           Inl e \<Rightarrow> (c1, ServerError e)
         | Inr ad \<Rightarrow>
        (let c2 = c1\<lparr>standalone_handler := (standalone_handler c1)\<lparr>auto_dismantle := ad\<rparr>\<rparr>
         in case py_getitem standalone_config ''soft_dismantle_timeout'' of
              Inl e \<Rightarrow> (c2, ServerError e)
            | Inr soft \<Rightarrow>
        (let c3 = c2\<lparr>standalone_handler :=
                       (standalone_handler c2)\<lparr>soft_dismantle_timeout := soft\<rparr>\<rparr>
         in case py_getitem standalone_config ''hard_dismantle_timeout'' of
              Inl e \<Rightarrow> (c3, ServerError e)
            | Inr hard \<Rightarrow>
        (let c4 = c3\<lparr>standalone_handler :=
                       (standalone_handler c3)\<lparr>hard_dismantle_timeout := hard\<rparr>\<rparr>
         in case py_getitem message ''executor_id'' of
              Inl e \<Rightarrow> (c4, ServerError e)
            | Inr executor_id \<Rightarrow>
        (case py_getitem message ''job_id'' of
           Inl e \<Rightarrow> (c4, ServerError e)
         | Inr job_id \<Rightarrow>
        (case w_create_job_key w executor_id job_id of
           Inl e \<Rightarrow> (c4, ServerError e)
         | Inr job_key \<Rightarrow>
        (let c5 = c4\<lparr>jobs := AList.update job_key ''running'' (jobs c4)\<rparr>
         in case w_localhost_run_job w message of
              Some e \<Rightarrow> (c5, ServerError e)
            | None \<Rightarrow> (c5, Accepted act_id)))))))))))))"

subsection \<open>Dispatch of a job to worker VMs\<close>

text \<open>
  \<open>iterchunks\<close> applied to a payload value: a list (or a string) is cut into chunks, the
  chunk size must be an integer. An empty dictionary has no chunk; a non-empty one cannot
  be sliced.
\<close>

definition py_iterchunks :: "pyval \<Rightarrow> pyval \<Rightarrow> py_error + pyval list" where
  "py_iterchunks lst n =
     (case lst of
        PList xs \<Rightarrow>
          (case py_index n of
             Inl e \<Rightarrow> Inl e
           | Inr k \<Rightarrow> (case iterchunks xs k of Inl e \<Rightarrow> Inl e | Inr cs \<Rightarrow> Inr (map PList cs)))
      | PStr cs \<Rightarrow>
          (case py_index n of
             Inl e \<Rightarrow> Inl e
           | Inr k \<Rightarrow> (case iterchunks cs k of Inl e \<Rightarrow> Inl e | Inr ss \<Rightarrow> Inr (map PStr ss)))
      | PDict kvs \<Rightarrow>
          (case py_index n of
             Inl e \<Rightarrow> Inl e
           | Inr k \<Rightarrow> if k = 0 then Inl ValueError
                      else if kvs = [] \<or> k < 0 then Inr [] else Inl TypeError)
      | _ \<Rightarrow> Inl TypeError)"

text \<open>The items of \<open>for x in v\<close> for a list or a string.\<close>

fun py_iter :: "pyval \<Rightarrow> py_error + pyval list" where
  "py_iter (PList xs) = Inr xs"
| "py_iter (PStr cs) = Inr (map (\<lambda>c. PStr [c]) cs)"
| "py_iter (PDict kvs) = Inr (map (\<lambda>kv. PStr (fst kv)) kvs)"
| "py_iter v = Inl TypeError"

text \<open>\<open>v[i]\<close> with an integer index.\<close>

fun py_getitem_int :: "pyval \<Rightarrow> int \<Rightarrow> py_error + pyval" where
  "py_getitem_int (PList xs) i = list_index xs i"
| "py_getitem_int (PStr cs) i = (case list_index cs i of Inl e \<Rightarrow> Inl e | Inr c \<Rightarrow> Inr (PStr [c]))"
| "py_getitem_int (PDict kvs) i = Inl KeyError"
| "py_getitem_int v i = Inl TypeError"

text \<open>
  \<open>[dbr[int(call_id)] for call_id in call_ids_range]\<close>: the first failing element raises.
\<close>

fun select_ranges :: "pyval \<Rightarrow> pyval list \<Rightarrow> py_error + pyval list" where
  "select_ranges dbr [] = Inr []"
| "select_ranges dbr (call_id # rest) =
     (case py_int call_id of
        Inl e \<Rightarrow> Inl e
      | Inr i \<Rightarrow>
          (case py_getitem_int dbr i of
             Inl e \<Rightarrow> Inl e
           | Inr x \<Rightarrow>
               (case select_ranges dbr rest of Inl e \<Rightarrow> Inl e | Inr xs \<Rightarrow> Inr (x # xs))))"

text \<open>
  \<open>instance_name, ip_address, instance_id = worker_info\<close>: a value that cannot be
  iterated raises TypeError, an iterable that does not have three items ValueError; a
  string gives its characters and a dictionary its keys.
\<close>

fun unpack3 :: "pyval \<Rightarrow> py_error + (pyval \<times> pyval \<times> pyval)" where
  "unpack3 (PList xs) = (case xs of [a, b, c] \<Rightarrow> Inr (a, b, c) | _ \<Rightarrow> Inl ValueError)"
| "unpack3 (PStr cs) =
     (case cs of [a, b, c] \<Rightarrow> Inr (PStr [a], PStr [b], PStr [c]) | _ \<Rightarrow> Inl ValueError)"
| "unpack3 (PDict kvs) =
     (case kvs of
        [a, b, c] \<Rightarrow> Inr (PStr (fst a), PStr (fst b), PStr (fst c))
      | _ \<Rightarrow> Inl ValueError)"
| "unpack3 v = Inl TypeError"

text \<open>
  \<^verbatim>\<open>
  script = get_host_setup_scritp(instance_name, ip_address, instance_id)
  \<close>
  The name \<open>get_host_setup_scritp\<close> is neither defined nor imported in
  master_controller.py: looking it up raises NameError, whatever the arguments.
\<close>

definition get_host_setup_scritp :: "pyval \<Rightarrow> pyval \<Rightarrow> pyval \<Rightarrow> py_error + string" where
  "get_host_setup_scritp name ip ident = Inl NameError"

text \<open>
  The rewrite of the payload for one chunk, and the payload that is then posted:
  \<^verbatim>\<open>
  dbr = job_payload['data_byte_ranges']
  job_payload['call_ids'] = call_ids_range
  job_payload['data_byte_ranges'] = [dbr[int(call_id)] for call_id in call_ids_range]
  \<close>
\<close>

definition rewrite_payload :: "pyval \<Rightarrow> pyval \<Rightarrow> py_error + pyval" where
  "rewrite_payload call_ids_range job_payload =
     (case py_getitem job_payload ''data_byte_ranges'' of
        Inl e \<Rightarrow> Inl e
      | Inr dbr \<Rightarrow>
          (case job_payload of
             PDict kvs \<Rightarrow>
               (let kvs1 = AList.update ''call_ids'' call_ids_range kvs
                in case py_iter call_ids_range of
                     Inl e \<Rightarrow> Inl e
                   | Inr ids \<Rightarrow>
                       (case select_ranges dbr ids of
                          Inl e \<Rightarrow> Inl e
                        | Inr sel \<Rightarrow>
                            Inr (PDict (AList.update ''data_byte_ranges'' (PList sel) kvs1))))
           | _ \<Rightarrow> Inl TypeError))"

text \<open>
  \<open>run_job_on_worker\<close>, in the order of its statements: \<open>worker_info\<close> is unpacked; the
  SSH client is made, the instance is awaited and the package is uploaded
  (\<open>w_worker_setup\<close>, on the IP address); the set-up script is asked for; it is run, the
  connection closed and the proxy awaited (\<open>w_worker_install\<close>); the payload is rewritten
  and posted to the worker. The result is the payload that is posted.
\<close>

definition run_job_on_worker :: "world \<Rightarrow> pyval \<Rightarrow> pyval \<Rightarrow> pyval \<Rightarrow> py_error + pyval" where
  "run_job_on_worker w worker_info call_ids_range job_payload =
     (case unpack3 worker_info of
        Inl e \<Rightarrow> Inl e
      | Inr (name, ip, ident) \<Rightarrow>
          (case w_worker_setup w ip of
             Some e \<Rightarrow> Inl e
           | None \<Rightarrow>
               (case get_host_setup_scritp name ip ident of
                  Inl e \<Rightarrow> Inl e
                | Inr script \<Rightarrow>
                    (case w_worker_install w ip script of
                       Some e \<Rightarrow> Inl e
                     | None \<Rightarrow> rewrite_payload call_ids_range job_payload))))"

text \<open>
  The loop of \<open>run_job\<close> in create mode: each chunk takes the first remaining worker
  (\<open>workers.pop(0)\<close>, IndexError when none is left) and is submitted with a deep copy of
  the payload.
\<close>

datatype submission = Submission (sub_worker: pyval) (sub_call_ids: pyval) (sub_payload: pyval)

fun submit_chunks :: "pyval list \<Rightarrow> pyval list \<Rightarrow> pyval \<Rightarrow> submission list \<times> py_error option"
  where
  "submit_chunks [] workers job_payload = ([], None)"
| "submit_chunks (call_ids_range # chunks) [] job_payload = ([], Some IndexError)"
| "submit_chunks (call_ids_range # chunks) (worker_info # workers) job_payload =
     (case submit_chunks chunks workers job_payload of
        (subs, r) \<Rightarrow> (Submission worker_info call_ids_range job_payload # subs, r))"

datatype dispatch = ToWorkers "submission list" | ToLocalhost pyval

text \<open>
  \<^verbatim>\<open>
  STANDALONE_CONFIG.update(job_payload['config']['standalone'])
  exec_mode = job_payload['config']['standalone'].get('exec_mode', 'consume')
  \<close>
  on a section that is not a dictionary (\<open>STANDALONE_CONFIG\<close> is one). \<open>update\<close> raises
  TypeError for a value that cannot be iterated; of an iterable it takes each item as a
  key and value pair: an item that cannot be iterated or whose key is unhashable raises
  TypeError, an item that does not have two parts ValueError. When \<open>update\<close> gets
  through (the empty string, a list of pairs), \<open>get\<close> raises AttributeError.
\<close>

fun update_item_error :: "pyval \<Rightarrow> py_error option" where
  "update_item_error (PList xs) =
     (case xs of
        [PList k, v] \<Rightarrow> Some TypeError
      | [PDict k, v] \<Rightarrow> Some TypeError
      | [k, v] \<Rightarrow> None
      | _ \<Rightarrow> Some ValueError)"
| "update_item_error (PStr cs) = (case cs of [a, b] \<Rightarrow> None | _ \<Rightarrow> Some ValueError)"
| "update_item_error (PDict kvs) = (case kvs of [a, b] \<Rightarrow> None | _ \<Rightarrow> Some ValueError)"
| "update_item_error v = Some TypeError"

fun update_items_error :: "pyval list \<Rightarrow> py_error option" where
  "update_items_error [] = None"
| "update_items_error (x # xs) =
     (case update_item_error x of Some e \<Rightarrow> Some e | None \<Rightarrow> update_items_error xs)"

fun standalone_section_error :: "pyval \<Rightarrow> py_error" where
  "standalone_section_error (PStr cs) = (if cs = [] then AttributeError else ValueError)"
| "standalone_section_error (PList xs) =
     (case update_items_error xs of Some e \<Rightarrow> e | None \<Rightarrow> AttributeError)"
| "standalone_section_error v = TypeError"

text \<open>
  \<open>run_job\<close> of the master controller: \<open>job_payload\<close> and \<open>workers\<close> are the two JSON
  arguments of the process.
\<close>

definition master_run_job :: "pyval \<Rightarrow> pyval list \<Rightarrow> dispatch \<times> py_error option" where
  "master_run_job job_payload workers =
     (case py_getitem job_payload ''config'' of
        Inl e \<Rightarrow> (ToWorkers [], Some e)
      | Inr cfg \<Rightarrow>
     (case py_getitem cfg ''standalone'' of
        Inl e \<Rightarrow> (ToWorkers [], Some e)
      | Inr (PDict sc) \<Rightarrow>
          (if py_eq_str (dict_get sc ''exec_mode'' (PStr ''consume'')) ''create'' then
             (case py_getitem job_payload ''call_ids'' of
                Inl e \<Rightarrow> (ToWorkers [], Some e)
              | Inr call_ids \<Rightarrow>
             (case py_getitem job_payload ''chunksize'' of
                Inl e \<Rightarrow> (ToWorkers [], Some e)
              | Inr chunksize \<Rightarrow>
                  (if length workers = 0 then (ToWorkers [], Some ValueError)
                   else
                     (case py_iterchunks call_ids chunksize of
                        Inl e \<Rightarrow> (ToWorkers [], Some e)
                      | Inr chunks \<Rightarrow>
                          (case submit_chunks chunks workers job_payload of
                             (subs, r) \<Rightarrow> (ToWorkers subs, r))))))
           else (ToLocalhost job_payload, None))
      | Inr section \<Rightarrow> (ToWorkers [], Some (standalone_section_error section))))"

subsection \<open>Start of the keeper\<close>

text \<open>\<open>needle in haystack\<close> for two strings.\<close>

definition py_in_str :: "string \<Rightarrow> string \<Rightarrow> bool" where
  "py_in_str needle haystack =
     list_ex (\<lambda>i. take (length needle) (drop i haystack) = needle) [0..<Suc (length haystack)]"

text \<open>
  What \<open>init_keeper\<close> does to the instance object \<open>vsi\<close> that stands for the VM hosting
  the controller, with the details read from \<open>access.data\<close>:
  \<^verbatim>\<open>
  vsi.ip_address = vsi_details['ip_address']
  vsi.instance_id = vsi_details['instance_id']
  vsi.delete_on_dismantle = False if 'master' in vsi_details['instance_name'] else True
  \<close>
  This is the only place of the two files where \<open>delete_on_dismantle\<close> occurs.
\<close>

definition init_keeper_vsi :: "backend \<Rightarrow> string \<Rightarrow> string \<Rightarrow> string \<Rightarrow> backend" where
  "init_keeper_vsi vsi name ip ident =
     vsi\<lparr> ip_address := Some ip, instance_id := Some ident,
          delete_on_dismantle := (if py_in_str ''master'' name then False else True) \<rparr>"

section \<open>A concrete deployment\<close>

text \<open>
  The instances and collaborators used to run the model on concrete inputs: a master VM
  that hosts the controller (\<open>delete_on_dismantle = False\<close>), one worker VM, and a world
  in which every collaborator succeeds at once.
\<close>

definition master_vm :: backend where
  "master_vm = \<lparr> instance_name = ''lithops-master'', ip_address = Some ''10.0.0.1'',
                 instance_id = Some ''i-0001'', delete_on_dismantle = False \<rparr>"

definition worker_vm :: backend where
  "worker_vm = \<lparr> instance_name = ''lithops-worker'', ip_address = Some ''10.0.0.2'',
                 instance_id = Some ''i-0002'', delete_on_dismantle = True \<rparr>"

text \<open>The instance that the provider creates for a name prefix and suffix.\<close>

definition new_worker :: "string \<Rightarrow> string \<Rightarrow> backend" where
  "new_worker name_prefix name_suffix =
     \<lparr> instance_name = name_prefix @ ''-'' @ name_suffix,
       ip_address = Some (''ip-'' @ name_suffix), instance_id = Some (''i-'' @ name_suffix),
       delete_on_dismantle = True \<rparr>"

definition job_key_of :: "pyval \<Rightarrow> pyval \<Rightarrow> py_error + string" where
  "job_key_of executor_id job_id =
     (case (executor_id, job_id) of
        (PStr e, PStr j) \<Rightarrow> Inr (e @ ''-'' @ j)
      | _ \<Rightarrow> Inl TypeError)"

definition calm_world :: world where
  "calm_world =
     \<lparr> w_is_lithops_worker = False,
       w_import_backend = (\<lambda>bname. None),
       w_StandaloneBackend = (\<lambda>section. Inr master_vm),
       w_backend_create = (\<lambda>b name_prefix name_suffix. Inr (new_worker name_prefix name_suffix)),
       w_backend_start = (\<lambda>b. None),
       w_backend_stop = (\<lambda>b. None),
       w_backend_probe = (\<lambda>b. (0, [(0, True)])),
       w_proxy_probe = (\<lambda>b. (0, [(0, True)])),
       w_proxy_ready_now = (\<lambda>b. True),
       w_setup_proxy = (\<lambda>b. None),
       w_post_run = (\<lambda>b job_payload. Inr (PDict [(''activationId'', PStr ''0123456789ab'')])),
       w_create_job_key = job_key_of,
       w_verify_runtime_name = (\<lambda>rt. None),
       w_localhost_run_job = (\<lambda>message. None),
       w_worker_setup = (\<lambda>ip. None),
       w_worker_install = (\<lambda>ip script. None) \<rparr>"

definition consume_config :: pyval where
  "consume_config =
     PDict [(''backend'', PStr ''vm''), (''runtime'', PStr ''python3''),
            (''vm'', PDict []), (''exec_mode'', PStr ''consume''),
            (''auto_dismantle'', PBool True), (''soft_dismantle_timeout'', PInt 10),
            (''hard_dismantle_timeout'', PInt 30), (''start_timeout'', PInt 300)]"

text \<open>A handler whose fleet holds the master VM and one worker.\<close>

definition fleet_handler :: StandaloneHandler where
  "fleet_handler =
     \<lparr> config = [(''backend'', PStr ''vm''), (''runtime'', PStr ''python3''), (''vm'', PDict [])],
       backend_name = PStr ''vm'',
       runtime = PStr ''python3'',
       is_lithops_worker = False,
       start_timeout = PInt 300,
       auto_dismantle = PBool True,
       disable_log_monitoring = PBool False,
       hard_dismantle_timeout = PInt 30,
       soft_dismantle_timeout = PInt 10,
       use_http = PBool False,
       encryption_key = PNone,
       local_runtime_load = PBool False,
       exec_mode = PStr ''consume'',
       backends = [master_vm, worker_vm],
       provided_backed = True \<rparr>"

text \<open>The same world, except that stopping the master VM raises.\<close>

definition stop_fails_world :: world where
  "stop_fails_world =
     calm_world\<lparr>w_backend_stop :=
       (\<lambda>b. if b = master_vm then Some (Exception ''stop failed'') else None)\<rparr>"

text \<open>
  The same world, except that no instance ever answers the SSH check or the proxy ping:
  the clock is read at 0 before the loop, and at 0, 150 and 300 by the loop test.
\<close>

definition unreachable_world :: world where
  "unreachable_world =
     calm_world\<lparr>w_backend_probe := (\<lambda>b. (0, [(0, False), (150, False), (300, False)])),
                w_proxy_probe := (\<lambda>b. (0, [(0, False), (150, False), (300, False)])),
                w_proxy_ready_now := (\<lambda>b. False)\<rparr>"

text \<open>
  A turn of the keeper loop in which every clock reading is \<open>t\<close> and every \<open>.done\<close> file
  exists.
\<close>

definition tick_at :: "real \<Rightarrow> tick_obs" where
  "tick_at t = \<lparr> t_loop = t, t_reset = t, t_after = t, done_file = (\<lambda>job_key. True) \<rparr>"

text \<open>
  The controller with one registered job, submitted at time 95, and the handler above
  (\<open>auto_dismantle\<close> on, soft timeout 10, hard timeout 30).
\<close>

definition one_job_controller :: controller where
  "one_job_controller =
     \<lparr> last_usage_time = 95, jobs = [(''e1-00003'', ''running'')],
       standalone_handler = fleet_handler \<rparr>"


definition job_message :: pyval where
  "job_message =
     PDict [(''runtime_name'', PStr ''python3''),
            (''executor_id'', PStr ''e1''), (''job_id'', PStr ''00003''),
            (''config'', PDict [(''standalone'',
               PDict [(''auto_dismantle'', PBool False), (''soft_dismantle_timeout'', PInt 10),
                      (''hard_dismantle_timeout'', PInt 30)])])]"

definition long_job_message :: pyval where
  "long_job_message =
     PDict [(''runtime_name'', PStr ''python3''),
            (''executor_id'', PStr ''e2''), (''job_id'', PStr ''00000''),
            (''config'', PDict [(''standalone'',
               PDict [(''auto_dismantle'', PBool False), (''soft_dismantle_timeout'', PInt 300),
                      (''hard_dismantle_timeout'', PInt 3600)])])]"

text \<open>
  A job of ten calls in create mode with chunk size 4, the data range of call \<open>i\<close> being
  \<open>[100 i, 100 i + 99]\<close>, and three workers.
\<close>

definition ten_call_ids :: "pyval list" where
  "ten_call_ids =
     [PStr ''00000'', PStr ''00001'', PStr ''00002'', PStr ''00003'',
      PStr ''00004'', PStr ''00005'', PStr ''00006'', PStr ''00007'',
      PStr ''00008'', PStr ''00009'']"

definition ten_ranges :: "pyval list" where
  "ten_ranges =
     [PList [PInt 0, PInt 99], PList [PInt 100, PInt 199],
      PList [PInt 200, PInt 299], PList [PInt 300, PInt 399],
      PList [PInt 400, PInt 499], PList [PInt 500, PInt 599],
      PList [PInt 600, PInt 699], PList [PInt 700, PInt 799],
      PList [PInt 800, PInt 899], PList [PInt 900, PInt 999]]"

definition ten_call_payload :: pyval where
  "ten_call_payload =
     PDict [(''config'', PDict [(''standalone'', PDict [(''exec_mode'', PStr ''create'')])]),
            (''executor_id'', PStr ''e1''), (''job_id'', PStr ''00003''),
            (''call_ids'', PList ten_call_ids),
            (''chunksize'', PInt 4),
            (''data_byte_ranges'', PList ten_ranges)]"

definition three_workers :: "pyval list" where
  "three_workers =
     [PList [PStr ''lithops-worker-0'', PStr ''10.0.1.0'', PStr ''i-1000''],
      PList [PStr ''lithops-worker-1'', PStr ''10.0.1.1'', PStr ''i-1001''],
      PList [PStr ''lithops-worker-2'', PStr ''10.0.1.2'', PStr ''i-1002'']]"

text \<open>
  A handler as it is on a worker VM, with \<open>disable_log_monitoring\<close> set to the string
  \<open>'False'\<close>.
\<close>

definition worker_side_handler :: StandaloneHandler where
  "worker_side_handler =
     fleet_handler\<lparr>is_lithops_worker := True, disable_log_monitoring := PStr ''False''\<rparr>"

text \<open>The handler of the fleet with \<open>disable_log_monitoring\<close> set to the string \<open>'False'\<close>.\<close>

definition monitoring_handler :: StandaloneHandler where
  "monitoring_handler = fleet_handler\<lparr>disable_log_monitoring := PStr ''False''\<rparr>"

text \<open>A configuration in create mode, and a job of three calls.\<close>

definition create_config :: pyval where
  "create_config =
     PDict [(''backend'', PStr ''vm''), (''runtime'', PStr ''python3''),
            (''vm'', PDict []), (''exec_mode'', PStr ''create'')]"

definition three_call_payload :: pyval where
  "three_call_payload =
     PDict [(''executor_id'', PStr ''e1''), (''job_id'', PStr ''00003''),
            (''job_description'', PDict [(''total_calls'', PInt 3)])]"

section \<open>Properties of the chunk partition\<close>

lemma chunks_from_concat: "0 < n \<Longrightarrow> concat (chunks_from i n lst) = drop i lst"
proof (induction i n lst rule: chunks_from.induct)
  case (1 i n lst)
  show ?case
  proof (cases "length lst \<le> i")
    case True
    then show ?thesis by (simp add: chunks_from.simps)
  next
    case False
    with 1 have "concat (chunks_from (i + n) n lst) = drop (i + n) lst" by simp
    with False 1(2) show ?thesis
      by (subst chunks_from.simps) (simp add: add.commute[of i n] flip: drop_drop)
  qed
qed

lemma chunks_from_length:
  "0 < n \<Longrightarrow> length (chunks_from i n lst) = (length lst - i + n - 1) div n"
proof (induction i n lst rule: chunks_from.induct)
  case (1 i n lst)
  show ?case
  proof (cases "length lst \<le> i")
    case True
    with 1(2) show ?thesis by (simp add: chunks_from.simps)
  next
    case False
    with 1 have ih: "length (chunks_from (i + n) n lst) = (length lst - (i + n) + n - 1) div n"
      by simp
    have "(length lst - i + n - 1) div n = Suc ((length lst - (i + n) + n - 1) div n)"
    proof (cases "length lst - i \<le> n")
      case True
      with False 1(2) have "(length lst - i + n - 1) div n = 1"
        by (intro div_nat_eqI) auto
      moreover from True have "(length lst - (i + n) + n - 1) div n = 0" using 1(2) by simp
      ultimately show ?thesis by simp
    next
      case F2: False
      then have "length lst - i + n - 1 = (length lst - (i + n) + n - 1) + n" by simp
      then show ?thesis using 1(2) by (simp only: div_add_self2)
    qed
    with False 1(2) ih show ?thesis
      by (subst chunks_from.simps) simp
  qed
qed

lemma chunks_from_nth:
  "0 < n \<Longrightarrow> k < length (chunks_from i n lst) \<Longrightarrow>
   chunks_from i n lst ! k = take n (drop (i + k * n) lst)"
proof (induction i n lst arbitrary: k rule: chunks_from.induct)
  case (1 i n lst)
  show ?case
  proof (cases "length lst \<le> i")
    case True
    with 1(3) show ?thesis by (simp add: chunks_from.simps)
  next
    case False
    show ?thesis
    proof (cases k)
      case 0
      with False 1(2) show ?thesis by (subst chunks_from.simps) simp
    next
      case (Suc j)
      with False 1(2,3) have "j < length (chunks_from (i + n) n lst)"
        by (subst (asm) chunks_from.simps) simp
      with 1(1)[of j] False 1(2)
      have "chunks_from (i + n) n lst ! j = take n (drop (i + n + j * n) lst)" by simp
      with False 1(2) Suc show ?thesis
        by (subst chunks_from.simps) (simp add: ac_simps)
    qed
  qed
qed

lemma ceil_div_nat:
  assumes "0 < n"
  shows "\<lceil>real L / real n\<rceil> = int ((L + n - 1) div n)"
proof (rule ceiling_unique)
  let ?q = "(L + n - 1) div n"
  have a: "?q * n \<le> L + n - 1" by simp
  have b: "L + n - 1 < (?q + 1) * n" using assms
    by (metis Suc_eq_plus1 dividend_less_div_times mult.commute add.commute mult_Suc)
  from b assms have "L \<le> ?q * n" by simp
  then have "real L \<le> real (?q * n)" by (rule of_nat_mono)
  then show "real L / real n \<le> of_int (int ?q)" using assms
    by (simp add: divide_le_eq)
  from a assms have "?q * n < L + n" by linarith
  then have "real (?q * n) < real (L + n)" by (simp only: of_nat_less_iff)
  then show "of_int (int ?q) - 1 < real L / real n" using assms
    by (simp add: less_divide_eq algebra_simps)
qed

text \<open>
  Claim C1. For a sequence of length \<open>L\<close> and a chunk size \<open>C > 0\<close>, \<open>iterchunks\<close> returns
  exactly \<open>ceil(L / C)\<close> chunks; their concatenation is the sequence; chunk \<open>k\<close> is the
  contiguous slice of (at most) \<open>C\<close> elements starting at position \<open>k * C\<close>, so the
  assignment of calls to chunks is a function of the sequence and the chunk size alone;
  every chunk but the last has exactly \<open>C\<close> elements, and no chunk is empty or longer
  than \<open>C\<close>.
\<close>

theorem iterchunks_partition:
  assumes "0 < n"
  shows "\<exists>cs. iterchunks lst n = Inr cs
           \<and> int (length cs) = \<lceil>real (length lst) / real_of_int n\<rceil>
           \<and> concat cs = lst
           \<and> (\<forall>k < length cs. cs ! k = take (nat n) (drop (k * nat n) lst))
           \<and> (\<forall>k. Suc k < length cs \<longrightarrow> length (cs ! k) = nat n)
           \<and> (\<forall>c \<in> set cs. c \<noteq> [] \<and> length c \<le> nat n)"
proof -
  let ?m = "nat n"
  let ?cs = "chunks_from 0 ?m lst"
  from assms have m: "0 < ?m" by simp
  have run: "iterchunks lst n = Inr ?cs"
    using assms by (simp add: iterchunks_def)
  have len: "length ?cs = (length lst + ?m - 1) div ?m"
    using chunks_from_length [OF m, of 0 lst] by simp
  have "\<lceil>real (length lst) / real ?m\<rceil> = int (length ?cs)"
    using ceil_div_nat [OF m, of "length lst"] len by simp
  moreover have "real ?m = real_of_int n" using assms by simp
  ultimately have cnt: "int (length ?cs) = \<lceil>real (length lst) / real_of_int n\<rceil>"
    by simp
  have cat: "concat ?cs = lst"
    using chunks_from_concat [OF m, of 0 lst] by simp
  have nth: "\<forall>k < length ?cs. ?cs ! k = take ?m (drop (k * ?m) lst)"
    using chunks_from_nth [OF m, of _ 0 lst] by simp
  have full: "length (?cs ! k) = ?m" if k: "Suc k < length ?cs" for k
  proof -
    from k have "Suc (Suc k) \<le> (length lst + ?m - 1) div ?m" by (simp only: len Suc_le_eq)
    then have "Suc (Suc k) * ?m \<le> length lst + ?m - 1"
      using m by (simp only: less_eq_div_iff_mult_less_eq)
    then have "k * ?m + ?m \<le> length lst" using m by simp
    moreover from k nth have "?cs ! k = take ?m (drop (k * ?m) lst)" by simp
    ultimately show ?thesis by simp
  qed
  have ne: "c \<noteq> [] \<and> length c \<le> ?m" if c: "c \<in> set ?cs" for c
  proof -
    from c obtain k where k: "k < length ?cs" and ck: "c = ?cs ! k"
      by (auto simp: in_set_conv_nth)
    from k have "Suc k \<le> (length lst + ?m - 1) div ?m" by (simp only: len Suc_le_eq)
    then have "Suc k * ?m \<le> length lst + ?m - 1"
      using m by (simp only: less_eq_div_iff_mult_less_eq)
    then have "k * ?m < length lst" using m by simp
    with k nth ck assms show ?thesis by simp
  qed
  from run cnt cat nth full ne show ?thesis by blast
qed

theorem iterchunks_partition_witness:
  "(0::int) < 4 \<and>
   (\<exists>cs. iterchunks [0, 1, 2, 3, 4, 5, 6, 7, 8, 9 :: nat] 4 = Inr cs
      \<and> int (length cs) = \<lceil>real (length [0, 1, 2, 3, 4, 5, 6, 7, 8, 9 :: nat]) / real_of_int 4\<rceil>
      \<and> concat cs = [0, 1, 2, 3, 4, 5, 6, 7, 8, 9]
      \<and> (\<forall>k < length cs. cs ! k = take (nat 4) (drop (k * nat 4) [0, 1, 2, 3, 4, 5, 6, 7, 8, 9]))
      \<and> (\<forall>k. Suc k < length cs \<longrightarrow> length (cs ! k) = nat 4)
      \<and> (\<forall>c \<in> set cs. c \<noteq> [] \<and> length c \<le> nat 4))"
proof -
  have h: "(0::int) < 4" by simp
  from iterchunks_partition [OF h, of "[0, 1, 2, 3, 4, 5, 6, 7, 8, 9 :: nat]"] h
  show ?thesis by blast
qed

section \<open>Properties of dismantle and of the readiness waits\<close>

lemma stop_all_success:
  "\<forall>b \<in> set bs. w_backend_stop w b = None \<Longrightarrow> stop_all w bs = (map BackendStop bs, None)"
  by (induction bs) auto

lemma stop_all_events:
  "fst (stop_all w bs) =
     map BackendStop (takeWhile (\<lambda>b. w_backend_stop w b = None) bs
                      @ take 1 (dropWhile (\<lambda>b. w_backend_stop w b = None) bs))"
  by (induction bs) (auto split: option.splits prod.splits)

lemma stop_all_result:
  "snd (stop_all w bs) =
     (case dropWhile (\<lambda>b. w_backend_stop w b = None) bs of
        [] \<Rightarrow> None
      | b # _ \<Rightarrow> w_backend_stop w b)"
  by (induction bs) (auto split: option.splits prod.splits)

text \<open>
  Claim C2 (as amended). \<open>dismantle\<close> does not read \<open>delete_on_dismantle\<close>: when no
  \<open>stop\<close> call raises, \<open>stop\<close> is called on every backend of \<open>self.backends\<close>, in list
  order, whatever its flag.
\<close>

theorem dismantle_stops_whole_fleet:
  assumes "\<forall>b \<in> set (backends h). w_backend_stop w b = None"
  shows "dismantle w h = (map BackendStop (backends h), None)"
  using assms by (simp add: dismantle_def stop_all_success)

theorem dismantle_stops_whole_fleet_witness:
  "delete_on_dismantle master_vm = False
   \<and> dismantle calm_world fleet_handler = (map BackendStop [master_vm, worker_vm], None)"
proof -
  have h: "\<forall>b \<in> set (backends fleet_handler). w_backend_stop calm_world b = None"
    by (simp add: calm_world_def)
  have "backends fleet_handler = [master_vm, worker_vm]"
    by (simp add: fleet_handler_def)
  with dismantle_stops_whole_fleet [OF h] show ?thesis
    by (simp add: master_vm_def)
qed

text \<open>
  The claim as stated fails: the fleet of \<open>fleet_handler\<close> holds the master VM, whose
  flag is \<open>False\<close>, and \<open>dismantle\<close> stops it together with the worker.
\<close>

theorem dismantle_ignores_delete_flag_counterexample:
  "init_keeper_vsi master_vm ''lithops-master'' ''10.0.0.1'' ''i-0001'' = master_vm
   \<and> delete_on_dismantle master_vm = False
   \<and> backends fleet_handler = [master_vm, worker_vm]
   \<and> dismantle calm_world fleet_handler = ([BackendStop master_vm, BackendStop worker_vm], None)"
  by (simp add: dismantle_def fleet_handler_def calm_world_def master_vm_def
        init_keeper_vsi_def py_in_str_def upt_rec)

text \<open>
  Claim C7 (as amended). \<open>dismantle\<close> calls \<open>stop\<close> on the backends in list order up to
  and including the first one whose \<open>stop\<close> raises; that exception leaves \<open>dismantle\<close>
  and the backends after it are not attempted in this call. The budget keeper catches the
  exception, logs it and goes on with its loop.
\<close>

theorem dismantle_stops_at_first_failure:
  "dismantle w h =
     (map BackendStop
        (takeWhile (\<lambda>b. w_backend_stop w b = None) (backends h)
         @ take 1 (dropWhile (\<lambda>b. w_backend_stop w b = None) (backends h))),
      case dropWhile (\<lambda>b. w_backend_stop w b = None) (backends h) of
        [] \<Rightarrow> None
      | b # _ \<Rightarrow> w_backend_stop w b)
   \<and> keeper_act w check_interval 0 c
       = Inr (Dismantle (fst (dismantle w (standalone_handler c)))
                        (snd (dismantle w (standalone_handler c))))"
  unfolding dismantle_def keeper_act_def
  by (simp add: prod_eq_iff stop_all_events stop_all_result split: prod.splits)

text \<open>
  The claim as stated fails: when stopping the master VM raises, the worker behind it in
  the list is never stopped, although its own \<open>stop\<close> would succeed.
\<close>

theorem dismantle_best_effort_counterexample:
  "dismantle stop_fails_world fleet_handler
     = ([BackendStop master_vm], Some (Exception ''stop failed''))
   \<and> w_backend_stop stop_fails_world worker_vm = None
   \<and> BackendStop worker_vm \<notin> set (fst (dismantle stop_fails_world fleet_handler))"
  by (simp add: dismantle_def fleet_handler_def stop_fails_world_def calm_world_def
        master_vm_def worker_vm_def)

lemma wait_loop_timeout:
  "\<forall>(t, r) \<in> set pre. t - start < timeout \<and> \<not> r \<Longrightarrow> \<not> (t - start < timeout) \<Longrightarrow>
   wait_loop start timeout (pre @ (t, r) # post) = Some False"
  by (induction pre) auto

lemma wait_loop_ready:
  "\<forall>(t, r) \<in> set pre. t - start < timeout \<and> \<not> r \<Longrightarrow> t - start < timeout \<Longrightarrow>
   wait_loop start timeout (pre @ (t, True) # post) = Some True"
  by (induction pre) auto

lemma wait_loop_returns:
  "\<exists>(t, r) \<in> set obs. \<not> (t - start < timeout) \<or> r \<Longrightarrow> wait_loop start timeout obs \<noteq> None"
proof (induction obs)
  case Nil
  then show ?case by simp
next
  case (Cons ob obs)
  obtain t r where ob: "ob = (t, r)" by (cases ob)
  show ?case
  proof (cases "t - start < timeout \<and> \<not> r")
    case True
    with Cons.prems ob have "\<exists>(t, r) \<in> set obs. \<not> (t - start < timeout) \<or> r" by auto
    with Cons.IH True ob show ?thesis by simp
  next
    case False
    with ob show ?thesis by auto
  qed
qed

lemma wait_ready_timeout:
  assumes "py_num (start_timeout h) = Inr timeout"
    and "wait_loop (fst probe) timeout (snd probe) = Some False"
  shows "wait_ready w h probe msg =
           Some (fst (dismantle w h),
                 Inl (case snd (dismantle w h) of None \<Rightarrow> Exception msg | Some e \<Rightarrow> e))"
  using assms by (simp add: wait_ready_def split: prod.splits option.splits)

text \<open>
  Claim C3 (as amended). When the readiness checks made before the deadline all fail and
  the loop test then finds \<open>start_timeout\<close> elapsed, \<open>_wait_backend_ready\<close> and
  \<open>_wait_proxy_ready\<close> call \<open>self.dismantle()\<close>, which works on the whole fleet and not on
  the awaited instance alone, and then raise: the exception of a failing \<open>stop\<close> if there
  is one, the readiness exception otherwise. When no \<open>stop\<close> raises, every backend of
  \<open>self.backends\<close> is stopped. The wait ends there; the instance is not polled again.
\<close>

theorem readiness_timeout_dismantles_fleet:
  assumes num: "py_num (start_timeout h) = Inr timeout"
    and pre: "\<forall>(t', r') \<in> set pre. t' - start < timeout \<and> \<not> r'"
    and late: "\<not> (t - start < timeout)"
  shows "(w_backend_probe w b = (start, pre @ (t, r) # post) \<longrightarrow>
            wait_backend_ready w h b =
              Some (fst (dismantle w h),
                    Inl (case snd (dismantle w h) of
                           None \<Rightarrow> Exception ''VM readiness probe expired. Check your VM''
                         | Some e \<Rightarrow> e)))
       \<and> (w_proxy_probe w b = (start, pre @ (t, r) # post) \<longrightarrow>
            wait_proxy_ready w h b =
              Some (fst (dismantle w h),
                    Inl (case snd (dismantle w h) of
                           None \<Rightarrow> Exception ''Proxy readiness probe expired. Check your VM''
                         | Some e \<Rightarrow> e)))
       \<and> ((\<forall>x \<in> set (backends h). w_backend_stop w x = None) \<longrightarrow>
            dismantle w h = (map BackendStop (backends h), None))"
proof -
  have loop: "wait_loop start timeout (pre @ (t, r) # post) = Some False"
    using pre late by (rule wait_loop_timeout)
  have a: "wait_ready w h (start, pre @ (t, r) # post) msg =
           Some (fst (dismantle w h),
                 Inl (case snd (dismantle w h) of None \<Rightarrow> Exception msg | Some e \<Rightarrow> e))" for msg
    using wait_ready_timeout [OF num, of "(start, pre @ (t, r) # post)" w msg] loop by simp
  show ?thesis
    using a by (simp add: wait_backend_ready_def wait_proxy_ready_def dismantle_def stop_all_success)
qed

theorem readiness_timeout_dismantles_fleet_witness:
  "py_num (start_timeout fleet_handler) = Inr 300
   \<and> \<not> ((300::real) - 0 < 300)
   \<and> w_backend_probe unreachable_world worker_vm = (0, [(0, False), (150, False)] @ (300, False) # [])
   \<and> w_proxy_probe unreachable_world worker_vm = (0, [(0, False), (150, False)] @ (300, False) # [])
   \<and> wait_backend_ready unreachable_world fleet_handler worker_vm
       = Some ([BackendStop master_vm, BackendStop worker_vm],
               Inl (Exception ''VM readiness probe expired. Check your VM''))
   \<and> wait_proxy_ready unreachable_world fleet_handler worker_vm
       = Some ([BackendStop master_vm, BackendStop worker_vm],
               Inl (Exception ''Proxy readiness probe expired. Check your VM''))"
proof -
  have num: "py_num (start_timeout fleet_handler) = Inr 300"
    by (simp add: fleet_handler_def)
  have pre: "\<forall>(t', r') \<in> set [(0, False), (150, False)]. t' - 0 < (300::real) \<and> \<not> r'"
    by simp
  have late: "\<not> ((300::real) - 0 < 300)" by simp
  have p1: "w_backend_probe unreachable_world worker_vm
              = (0, [(0, False), (150, False)] @ (300, False) # [])"
    by (simp add: unreachable_world_def)
  have p2: "w_proxy_probe unreachable_world worker_vm
              = (0, [(0, False), (150, False)] @ (300, False) # [])"
    by (simp add: unreachable_world_def)
  have st: "\<forall>x \<in> set (backends fleet_handler). w_backend_stop unreachable_world x = None"
    by (simp add: unreachable_world_def calm_world_def)
  have bs: "backends fleet_handler = [master_vm, worker_vm]"
    by (simp add: fleet_handler_def)
  from readiness_timeout_dismantles_fleet [OF num pre late,
      of unreachable_world worker_vm False "[]"] p1 p2 st bs
  show ?thesis using num pre late by simp
qed

text \<open>
  The claim as stated fails: the wait for the worker times out and the master VM is
  stopped as well, not only the unreachable worker.
\<close>

theorem readiness_timeout_counterexample:
  "wait_backend_ready unreachable_world fleet_handler worker_vm
     = Some ([BackendStop master_vm, BackendStop worker_vm],
             Inl (Exception ''VM readiness probe expired. Check your VM''))
   \<and> master_vm \<noteq> worker_vm"
  by (simp add: wait_backend_ready_def wait_ready_def dismantle_def fleet_handler_def
        unreachable_world_def calm_world_def master_vm_def worker_vm_def)

section \<open>Properties of the budget keeper and of \<open>/run\<close>\<close>

lemma py_trunc_pos: "0 < py_trunc x \<longleftrightarrow> 1 \<le> x"
  unfolding py_trunc_def by (auto simp: less_floor_iff less_ceiling_iff)

lemma keeper_act_cases:
  "keeper_act w ci (py_trunc x) c =
     (if x < 1 then Inr (Dismantle (fst (dismantle w (standalone_handler c)))
                                   (snd (dismantle w (standalone_handler c))))
      else if ci < 0 then Inl ValueError else Inr (Sleep ci))"
  by (auto simp: keeper_act_def py_trunc_pos not_le split: prod.splits)

lemma refresh_jobs_done:
  "list_all (\<lambda>v. v = ''done'') (map snd js) \<Longrightarrow> refresh_jobs f js = js"
  by (induction js) (auto simp: refresh_jobs_def)

lemma fully_idle_refresh:
  "fully_idle c \<Longrightarrow> c\<lparr>jobs := refresh_jobs f (jobs c)\<rparr> = c"
  by (simp add: fully_idle_def refresh_jobs_done)

lemma tick_idle:
  assumes "py_num (soft_dismantle_timeout (standalone_handler c)) = Inr s"
    and "fully_idle (c\<lparr>jobs := refresh_jobs (done_file ob) (jobs c)\<rparr>)"
  shows "budget_keeper_tick w ob (jobs_running, c) =
     (let c1 = c\<lparr>jobs := refresh_jobs (done_file ob) (jobs c)\<rparr>;
          c2 = (if jobs_running then c1\<lparr>last_usage_time := t_reset ob\<rparr> else c1);
          elapsed = (if jobs_running then t_after ob - t_reset ob
                     else t_loop ob - last_usage_time c)
      in ((False, c2),
          if s - elapsed < 1
          then Inr (Dismantle (fst (dismantle w (standalone_handler c)))
                              (snd (dismantle w (standalone_handler c))))
          else if s < 0 then Inl ValueError else Inr (Sleep (s / 10))))"
  using assms by (simp add: budget_keeper_tick_def keeper_act_cases Let_def)


lemma keeper_idle_run:
  assumes soft: "py_num (soft_dismantle_timeout (standalone_handler c)) = Inr s"
    and nonneg: "0 \<le> s"
    and idle: "fully_idle c"
    and early: "\<forall>ob \<in> set early. t_loop ob - last_usage_time c \<le> s - 1"
    and fire: "s - 1 < t_loop ob - last_usage_time c"
  shows "budget_keeper w (early @ [ob]) (False, c) =
           (replicate (length early) (Sleep (s / 10))
              @ [Dismantle (fst (dismantle w (standalone_handler c)))
                           (snd (dismantle w (standalone_handler c)))],
            None, (False, c))"
  using early
proof (induction early)
  case Nil
  have "budget_keeper_tick w ob (False, c) =
          ((False, c), Inr (Dismantle (fst (dismantle w (standalone_handler c)))
                                      (snd (dismantle w (standalone_handler c)))))"
    using tick_idle [OF soft, of ob w False] idle fire
    by (simp add: fully_idle_refresh)
  then show ?case by simp
next
  case (Cons o1 early)
  have "budget_keeper_tick w o1 (False, c) = ((False, c), Inr (Sleep (s / 10)))"
    using tick_idle [OF soft, of o1 w False] idle Cons.prems nonneg
    by (simp add: fully_idle_refresh)
  with Cons show ?case by simp
qed


lemma run_accepted:
  assumes "run w now act_id message c = (c', Accepted a)"
  shows "\<exists>cfg sc ad soft hard executor_id job_id job_key.
           py_getitem message ''config'' = Inr cfg
         \<and> py_getitem cfg ''standalone'' = Inr sc
         \<and> py_getitem sc ''auto_dismantle'' = Inr ad
         \<and> py_getitem sc ''soft_dismantle_timeout'' = Inr soft
         \<and> py_getitem sc ''hard_dismantle_timeout'' = Inr hard
         \<and> py_getitem message ''executor_id'' = Inr executor_id
         \<and> py_getitem message ''job_id'' = Inr job_id
         \<and> w_create_job_key w executor_id job_id = Inr job_key
         \<and> a = act_id
         \<and> c' = c\<lparr>last_usage_time := now,
                   standalone_handler := (standalone_handler c)
                     \<lparr>auto_dismantle := ad, soft_dismantle_timeout := soft,
                      hard_dismantle_timeout := hard\<rparr>,
                   jobs := AList.update job_key ''running'' (jobs c)\<rparr>"
  using assms unfolding run_def Let_def
  by (auto split: if_splits sum.splits option.splits)

lemma run_long_job_message:
  "run calm_world 120 ''0123456789ab'' long_job_message one_job_controller =
     (one_job_controller\<lparr>last_usage_time := 120,
        standalone_handler := (standalone_handler one_job_controller)
          \<lparr>auto_dismantle := PBool False, soft_dismantle_timeout := PInt 300,
           hard_dismantle_timeout := PInt 3600\<rparr>,
        jobs := [(''e1-00003'', ''running''), (''e2-00000'', ''running'')]\<rparr>,
      Accepted ''0123456789ab'')"
  by (simp add: run_def long_job_message_def calm_world_def job_key_of_def
        one_job_controller_def)


text \<open>
  Claim C4 (as amended). Take a turn of the keeper that finds the registry non-empty,
  every job done and \<open>auto_dismantle\<close> on, after a turn that did not (\<open>jobs_running\<close>
  is set). That turn resets \<open>last_usage_time\<close> to the current time and, with a soft
  timeout of at least a second, sleeps \<open>soft / 10\<close>. With no submission in between,
  every later turn computes \<open>int(soft - (now - last_usage_time))\<close> and sleeps while that
  is positive, that is while a whole second or more remains; \<open>dismantle\<close> is invoked
  at the first turn at which more than \<open>soft - 1\<close> seconds have passed since the reset,
  and at no turn before it. So the dismantle can come up to one second before the soft
  timeout has elapsed, and any turn at or after the soft timeout invokes it.
\<close>

theorem idle_countdown:
  assumes soft: "py_num (soft_dismantle_timeout (standalone_handler c)) = Inr s"
    and idle: "fully_idle (c\<lparr>jobs := refresh_jobs (done_file ob0) (jobs c)\<rparr>)"
    and clock: "t_reset ob0 \<le> t_after ob0"
    and first: "1 \<le> s - (t_after ob0 - t_reset ob0)"
    and early: "\<forall>ob \<in> set early. t_loop ob - t_reset ob0 \<le> s - 1"
    and fire: "s - 1 < t_loop ob - t_reset ob0"
  shows "budget_keeper w (ob0 # early @ [ob]) (True, c) =
           (Sleep (s / 10) # replicate (length early) (Sleep (s / 10))
              @ [Dismantle (fst (dismantle w (standalone_handler c)))
                           (snd (dismantle w (standalone_handler c)))],
            None,
            (False, c\<lparr>jobs := refresh_jobs (done_file ob0) (jobs c),
                       last_usage_time := t_reset ob0\<rparr>))"
proof -
  let ?c2 = "c\<lparr>jobs := refresh_jobs (done_file ob0) (jobs c), last_usage_time := t_reset ob0\<rparr>"
  from clock first have nonneg: "0 \<le> s" by simp
  have t0: "budget_keeper_tick w ob0 (True, c) = ((False, ?c2), Inr (Sleep (s / 10)))"
    using tick_idle [OF soft idle, of w True] first nonneg by (simp add: Let_def)
  have idle2: "fully_idle ?c2" using idle by (simp add: fully_idle_def)
  have soft2: "py_num (soft_dismantle_timeout (standalone_handler ?c2)) = Inr s"
    using soft by simp
  have "budget_keeper w (early @ [ob]) (False, ?c2) =
           (replicate (length early) (Sleep (s / 10))
              @ [Dismantle (fst (dismantle w (standalone_handler ?c2)))
                           (snd (dismantle w (standalone_handler ?c2)))],
            None, (False, ?c2))"
    using early fire by (intro keeper_idle_run [OF soft2 nonneg idle2]) simp_all
  with t0 show ?thesis by simp
qed

theorem idle_countdown_witness:
  "budget_keeper calm_world
     (tick_at 100 # map tick_at [101.1, 102.2, 103.3, 104.4, 105.5, 106.6, 107.7, 108.8]
        @ [tick_at 109.9])
     (True, one_job_controller)
   = (Sleep (10 / 10) # replicate 8 (Sleep (10 / 10))
        @ [Dismantle [BackendStop master_vm, BackendStop worker_vm] None],
      None,
      (False, one_job_controller\<lparr>jobs := [(''e1-00003'', ''done'')], last_usage_time := 100\<rparr>))"
proof -
  let ?early = "map tick_at [101.1, 102.2, 103.3, 104.4, 105.5, 106.6, 107.7, 108.8]"
  have soft: "py_num (soft_dismantle_timeout (standalone_handler one_job_controller)) = Inr 10"
    by (simp add: one_job_controller_def fleet_handler_def)
  have r: "refresh_jobs (done_file (tick_at 100)) (jobs one_job_controller)
             = [(''e1-00003'', ''done'')]"
    by (simp add: refresh_jobs_def tick_at_def one_job_controller_def)
  have idle: "fully_idle (one_job_controller
                \<lparr>jobs := refresh_jobs (done_file (tick_at 100)) (jobs one_job_controller)\<rparr>)"
    by (simp add: r fully_idle_def) (simp add: one_job_controller_def fleet_handler_def)
  have clock: "t_reset (tick_at 100) \<le> t_after (tick_at 100)"
    by (simp add: tick_at_def)
  have first: "1 \<le> (10::real) - (t_after (tick_at 100) - t_reset (tick_at 100))"
    by (simp add: tick_at_def)
  have early: "\<forall>ob \<in> set ?early. t_loop ob - t_reset (tick_at 100) \<le> 10 - 1"
    by (simp add: tick_at_def)
  have fire: "(10::real) - 1 < t_loop (tick_at 109.9) - t_reset (tick_at 100)"
    by (simp add: tick_at_def)
  have d: "dismantle calm_world (standalone_handler one_job_controller)
             = ([BackendStop master_vm, BackendStop worker_vm], None)"
    by (simp add: dismantle_def one_job_controller_def fleet_handler_def calm_world_def)
  have len: "length ?early = 8" by simp
  have tr: "t_reset (tick_at 100) = 100" by (simp add: tick_at_def)
  from idle_countdown [OF soft idle clock first early fire, of calm_world]
  show ?thesis by (simp only: r d len tr fst_conv snd_conv)
qed

text \<open>
  The claim as stated fails in its "not earlier": with a soft timeout of 10 and the
  countdown restarted at time 100, the keeper sleeps one second (and a little more) nine
  times and invokes \<open>dismantle\<close> at time 109.9, when 9.9 seconds have passed.
\<close>

theorem idle_countdown_counterexample:
  "budget_keeper calm_world
     (map tick_at [100, 101.1, 102.2, 103.3, 104.4, 105.5, 106.6, 107.7, 108.8, 109.9])
     (True, one_job_controller)
   = (replicate 9 (Sleep 1) @ [Dismantle [BackendStop master_vm, BackendStop worker_vm] None],
      None,
      (False, one_job_controller\<lparr>jobs := [(''e1-00003'', ''done'')], last_usage_time := 100\<rparr>))
   \<and> (109.9 :: real) - 100 < 10"
  by (simp add: budget_keeper_tick_def keeper_act_def fully_idle_def refresh_jobs_def
        py_trunc_def dismantle_def tick_at_def one_job_controller_def fleet_handler_def
        calm_world_def numeral_eq_Suc)




text \<open>
  Claim C8. A \<open>/run\<close> request that is accepted (answered with an activation id) has set
  \<open>last_usage_time\<close> to the current time and has replaced the handler's
  \<open>auto_dismantle\<close>, \<open>soft_dismantle_timeout\<close> and \<open>hard_dismantle_timeout\<close> by the
  values of the message's \<open>config.standalone\<close> section; the handler is otherwise
  unchanged. These are the attributes every later turn of the budget keeper reads.
\<close>

theorem run_overwrites_controller_state:
  assumes "run w now act_id message c = (c', Accepted a)"
  shows "\<exists>cfg sc ad soft hard.
           py_getitem message ''config'' = Inr cfg
         \<and> py_getitem cfg ''standalone'' = Inr sc
         \<and> py_getitem sc ''auto_dismantle'' = Inr ad
         \<and> py_getitem sc ''soft_dismantle_timeout'' = Inr soft
         \<and> py_getitem sc ''hard_dismantle_timeout'' = Inr hard
         \<and> last_usage_time c' = now
         \<and> standalone_handler c' =
             (standalone_handler c)\<lparr>auto_dismantle := ad, soft_dismantle_timeout := soft,
                                    hard_dismantle_timeout := hard\<rparr>
         \<and> auto_dismantle (standalone_handler c') = ad
         \<and> soft_dismantle_timeout (standalone_handler c') = soft
         \<and> hard_dismantle_timeout (standalone_handler c') = hard"
proof -
  from run_accepted [OF assms] obtain cfg sc ad soft hard executor_id job_id job_key where
    g: "py_getitem message ''config'' = Inr cfg" "py_getitem cfg ''standalone'' = Inr sc"
       "py_getitem sc ''auto_dismantle'' = Inr ad"
       "py_getitem sc ''soft_dismantle_timeout'' = Inr soft"
       "py_getitem sc ''hard_dismantle_timeout'' = Inr hard"
    and c': "c' = c\<lparr>last_usage_time := now,
                   standalone_handler := (standalone_handler c)
                     \<lparr>auto_dismantle := ad, soft_dismantle_timeout := soft,
                      hard_dismantle_timeout := hard\<rparr>,
                   jobs := AList.update job_key ''running'' (jobs c)\<rparr>"
    by blast
  from c' have "last_usage_time c' = now"
    and "standalone_handler c' =
             (standalone_handler c)\<lparr>auto_dismantle := ad, soft_dismantle_timeout := soft,
                                    hard_dismantle_timeout := hard\<rparr>"
    by simp_all
  with g show ?thesis by simp
qed

theorem run_overwrites_controller_state_witness:
  "auto_dismantle (standalone_handler one_job_controller) = PBool True
   \<and> soft_dismantle_timeout (standalone_handler one_job_controller) = PInt 10
   \<and> hard_dismantle_timeout (standalone_handler one_job_controller) = PInt 30
   \<and> last_usage_time one_job_controller = 95
   \<and> snd (run calm_world 120 ''0123456789ab'' long_job_message one_job_controller)
       = Accepted ''0123456789ab''
   \<and> last_usage_time
        (fst (run calm_world 120 ''0123456789ab'' long_job_message one_job_controller)) = 120
   \<and> auto_dismantle (standalone_handler
        (fst (run calm_world 120 ''0123456789ab'' long_job_message one_job_controller)))
       = PBool False
   \<and> soft_dismantle_timeout (standalone_handler
        (fst (run calm_world 120 ''0123456789ab'' long_job_message one_job_controller)))
       = PInt 300
   \<and> hard_dismantle_timeout (standalone_handler
        (fst (run calm_world 120 ''0123456789ab'' long_job_message one_job_controller)))
       = PInt 3600"
proof -
  let ?c = "fst (run calm_world 120 ''0123456789ab'' long_job_message one_job_controller)"
  have acc: "run calm_world 120 ''0123456789ab'' long_job_message one_job_controller
               = (?c, Accepted ''0123456789ab'')"
    by (simp add: run_long_job_message)
  from run_overwrites_controller_state [OF acc] obtain cfg sc ad soft hard where
    g: "py_getitem long_job_message ''config'' = Inr cfg"
       "py_getitem cfg ''standalone'' = Inr sc"
       "py_getitem sc ''auto_dismantle'' = Inr ad"
       "py_getitem sc ''soft_dismantle_timeout'' = Inr soft"
       "py_getitem sc ''hard_dismantle_timeout'' = Inr hard"
    and r: "last_usage_time ?c = 120" "auto_dismantle (standalone_handler ?c) = ad"
       "soft_dismantle_timeout (standalone_handler ?c) = soft"
       "hard_dismantle_timeout (standalone_handler ?c) = hard"
    by blast
  from g(1) have "cfg = PDict [(''standalone'',
               PDict [(''auto_dismantle'', PBool False), (''soft_dismantle_timeout'', PInt 300),
                      (''hard_dismantle_timeout'', PInt 3600)])]"
    by (simp add: long_job_message_def)
  with g(2) have "sc = PDict [(''auto_dismantle'', PBool False),
        (''soft_dismantle_timeout'', PInt 300), (''hard_dismantle_timeout'', PInt 3600)]"
    by simp
  with g(3-5) have "ad = PBool False" "soft = PInt 300" "hard = PInt 3600" by simp_all
  moreover have "auto_dismantle (standalone_handler one_job_controller) = PBool True"
    "soft_dismantle_timeout (standalone_handler one_job_controller) = PInt 10"
    "hard_dismantle_timeout (standalone_handler one_job_controller) = PInt 30"
    "last_usage_time one_job_controller = 95"
    by (simp_all add: one_job_controller_def fleet_handler_def)
  moreover have "snd (run calm_world 120 ''0123456789ab'' long_job_message one_job_controller)
       = Accepted ''0123456789ab''"
    by (simp add: run_long_job_message)
  ultimately show ?thesis using r by simp
qed

section \<open>Properties of the dispatch to worker VMs\<close>

lemma submit_chunks_zip:
  "submit_chunks chunks workers p =
     (map (\<lambda>(c, w). Submission w c p) (zip chunks workers),
      if length workers < length chunks then Some IndexError else None)"
  by (induction chunks workers p rule: submit_chunks.induct) auto

lemma select_ranges_length:
  "select_ranges dbr ids = Inr sel \<Longrightarrow> length sel = length ids"
  by (induction ids arbitrary: sel) (auto split: sum.splits)

lemma select_ranges_nth:
  "select_ranges dbr ids = Inr sel \<Longrightarrow> j < length ids \<Longrightarrow>
   \<exists>i. py_int (ids ! j) = Inr i \<and> py_getitem_int dbr i = Inr (sel ! j)"
proof (induction ids arbitrary: sel j)
  case Nil
  then show ?case by simp
next
  case (Cons a ids)
  then show ?case
    by (cases j) (auto split: sum.splits)
qed

lemma rewrite_payload_sent:
  assumes "rewrite_payload (PList chunk) job_payload = Inr sent"
  shows "py_getitem sent ''call_ids'' = Inr (PList chunk)
       \<and> (\<exists>dbr sel. py_getitem job_payload ''data_byte_ranges'' = Inr dbr
             \<and> select_ranges dbr chunk = Inr sel
             \<and> py_getitem sent ''data_byte_ranges'' = Inr (PList sel))
       \<and> (\<forall>key. key \<noteq> ''call_ids'' \<and> key \<noteq> ''data_byte_ranges'' \<longrightarrow>
             py_getitem sent key = py_getitem job_payload key)"
  using assms unfolding rewrite_payload_def Let_def
  by (auto simp: update_conv' split: option.splits sum.splits pyval.splits)

lemma is_digit_digit_char: "d < 10 \<Longrightarrow> is_digit (digit_char d)"
  by (simp add: is_digit_def digit_char_def)

lemma digit_val_digit_char: "d < 10 \<Longrightarrow> digit_val (digit_char d) = d"
  by (simp add: digit_val_def digit_char_def)

lemma is_digit_zero: "is_digit (CHR ''0'')" and digit_val_zero: "digit_val (CHR ''0'') = 0"
  by (simp_all add: is_digit_def digit_val_def)

lemma digit_not_space: "is_digit c \<Longrightarrow> \<not> is_space c"
  by (auto simp: is_digit_def is_space_def Let_def)

lemma digit_not_sign: "is_digit c \<Longrightarrow> c \<noteq> CHR ''-'' \<and> c \<noteq> CHR ''+''"
  by (auto simp: is_digit_def)

lemma digits_of_digits: "c \<in> set (digits_of n) \<Longrightarrow> is_digit c"
proof (induction n arbitrary: c rule: digits_of.induct)
  case (1 n)
  show ?case
  proof (cases "n < 10")
    case True
    with 1(2) show ?thesis
      by (subst (asm) digits_of.simps) (simp add: is_digit_digit_char)
  next
    case False
    with 1(2) have "c \<in> set (digits_of (n div 10)) \<or> c = digit_char (n mod 10)"
      by (subst (asm) digits_of.simps) auto
    with 1(1) False show ?thesis by (auto simp: is_digit_digit_char)
  qed
qed

lemma digits_of_nonempty: "digits_of n \<noteq> []"
  by (subst digits_of.simps) simp

lemma foldl_digits_of: "foldl dec_step 0 (digits_of n) = n"
proof (induction n rule: digits_of.induct)
  case (1 n)
  show ?case
  proof (cases "n < 10")
    case True
    then show ?thesis
      by (subst digits_of.simps) (simp add: dec_step_def digit_val_digit_char)
  next
    case False
    with 1 have "foldl dec_step 0 (digits_of (n div 10)) = n div 10" by simp
    with False show ?thesis
      by (subst digits_of.simps) (simp add: dec_step_def digit_val_digit_char)
  qed
qed

lemma foldl_zeros: "foldl dec_step 0 (replicate k (CHR ''0'') @ ds) = foldl dec_step 0 ds"
  by (induction k) (simp_all add: dec_step_def digit_val_zero)

lemma parse_digits_all:
  "\<forall>c \<in> set cs. is_digit c \<Longrightarrow> parse_digits acc cs = Some (foldl dec_step acc cs)"
  by (induction cs arbitrary: acc) (simp_all add: dec_step_def)

lemma parse_unsigned_all:
  assumes "s \<noteq> []" "\<forall>c \<in> set s. is_digit c"
  shows "parse_unsigned s = Some (foldl dec_step 0 s)"
proof -
  from assms(1) obtain c cs where s: "s = c # cs" by (cases s) auto
  with assms(2) have "parse_digits (digit_val c) cs = Some (foldl dec_step (digit_val c) cs)"
    by (intro parse_digits_all) simp
  with s assms(2) show ?thesis by (simp add: parse_unsigned_def dec_step_def)
qed

lemma strip_digits:
  assumes "\<forall>c \<in> set s. is_digit c"
  shows "strip s = s"
proof -
  have d: "dropWhile is_space t = t" if "\<forall>c \<in> set t. is_digit c" for t
    using that by (cases t) (auto simp: digit_not_space)
  from assms have "dropWhile is_space (rev (dropWhile is_space s)) = rev s"
    by (simp add: d)
  then show ?thesis by (simp add: strip_def)
qed

lemma py_int_str_digits:
  assumes "s \<noteq> []" "\<forall>c \<in> set s. is_digit c"
  shows "py_int_str s = Inr (int (foldl dec_step 0 s))"
proof -
  from assms(1) obtain c cs where s: "s = c # cs" by (cases s) auto
  with assms(2) have "c \<noteq> CHR ''-''" "c \<noteq> CHR ''+''" by (simp_all add: digit_not_sign)
  moreover have "parse_unsigned (c # cs) = Some (foldl dec_step 0 s)"
    using parse_unsigned_all [OF assms] s by simp
  ultimately show ?thesis
    using strip_digits [OF assms(2)] s by (simp add: py_int_str_def)
qed

lemma py_int_fmt_05d: "py_int (PStr (fmt_05d n)) = Inr (int n)"
proof -
  have "\<forall>c \<in> set (fmt_05d n). is_digit c"
    by (auto simp: fmt_05d_def Let_def is_digit_zero digits_of_digits)
  moreover have "fmt_05d n \<noteq> []" by (simp add: fmt_05d_def Let_def digits_of_nonempty)
  moreover have "foldl dec_step 0 (fmt_05d n) = n"
    by (simp add: fmt_05d_def Let_def foldl_zeros foldl_digits_of del: foldl_append)
  ultimately show ?thesis using py_int_str_digits [of "fmt_05d n"] by simp
qed

lemma select_ranges_canonical:
  "\<forall>i \<in> set idxs. i < length ranges \<Longrightarrow>
   select_ranges (PList ranges) (map (\<lambda>i. PStr (fmt_05d i)) idxs) = Inr (map ((!) ranges) idxs)"
  by (induction idxs) (simp_all add: py_int_fmt_05d list_index_def del: py_int.simps)

lemma rewrite_payload_canonical:
  assumes dbr: "py_getitem job_payload ''data_byte_ranges'' = Inr (PList ranges)"
    and idxs: "\<forall>i \<in> set idxs. i < length ranges"
  shows "\<exists>sent. rewrite_payload (PList (map (\<lambda>i. PStr (fmt_05d i)) idxs)) job_payload = Inr sent
           \<and> py_getitem sent ''call_ids'' = Inr (PList (map (\<lambda>i. PStr (fmt_05d i)) idxs))
           \<and> py_getitem sent ''data_byte_ranges'' = Inr (PList (map ((!) ranges) idxs))"
proof -
  from dbr obtain kvs where p: "job_payload = PDict kvs" by (cases job_payload) auto
  show ?thesis
    using dbr select_ranges_canonical [OF idxs] p
    by (simp add: rewrite_payload_def update_conv')
qed

lemma run_job_on_worker_raises:
  "run_job_on_worker w worker_info call_ids_range job_payload =
     Inl (case unpack3 worker_info of
            Inl e \<Rightarrow> e
          | Inr (name, ip, ident) \<Rightarrow>
              (case w_worker_setup w ip of Some e \<Rightarrow> e | None \<Rightarrow> NameError))"
  by (simp add: run_job_on_worker_def get_host_setup_scritp_def
      split: sum.splits prod.splits option.splits)

lemma ten_call_chunks:
  "iterchunks ten_call_ids 4
   = Inr [[PStr ''00000'', PStr ''00001'', PStr ''00002'', PStr ''00003''],
          [PStr ''00004'', PStr ''00005'', PStr ''00006'', PStr ''00007''],
          [PStr ''00008'', PStr ''00009'']]"
  by (simp add: iterchunks_def chunks_from.simps ten_call_ids_def)

lemma ten_call_ids_canonical:
  "ten_call_ids = map (\<lambda>i. PStr (fmt_05d i)) [0..<length ten_ranges]"
  by code_simp

text \<open>
  What \<open>run_job\<close> submits in create mode, and what the rewrite of the payload gives for
  each submitted chunk: with a chunk size \<open>C > 0\<close> and at least one worker per chunk,
  chunk \<open>k\<close> (the call ids from position \<open>k * C\<close> on, at most \<open>C\<close> of them) is submitted
  once, with worker \<open>k\<close> and the unchanged payload; the rewritten payload has exactly the
  chunk as \<open>call_ids\<close> and, in chunk order, the entry \<open>dbr[int(call_id)]\<close> of the original
  list for each call id of the chunk, which for the call ids \<open>"00000", "00001", ...\<close> is
  the slice of the original list at the chunk's positions.
\<close>

lemma create_mode_rewrite:
  assumes cfg: "py_getitem job_payload ''config'' = Inr cfg"
    and sc: "py_getitem cfg ''standalone'' = Inr (PDict sc)"
    and mode: "dict_get sc ''exec_mode'' (PStr ''consume'') = PStr ''create''"
    and ids: "py_getitem job_payload ''call_ids'' = Inr (PList call_ids)"
    and size: "py_getitem job_payload ''chunksize'' = Inr (PInt chunksize)"
    and pos: "0 < chunksize"
    and chunks: "iterchunks call_ids chunksize = Inr chunks"
    and enough: "length chunks \<le> length workers"
    and some: "workers \<noteq> []"
  shows "\<exists>subs. master_run_job job_payload workers = (ToWorkers subs, None)
           \<and> length subs = length chunks
           \<and> (\<forall>k < length chunks.
                 subs ! k = Submission (workers ! k) (PList (chunks ! k)) job_payload
               \<and> chunks ! k = take (nat chunksize) (drop (k * nat chunksize) call_ids)
               \<and> (\<forall>sent. rewrite_payload (PList (chunks ! k)) job_payload
                            = Inr sent \<longrightarrow>
                     py_getitem sent ''call_ids'' = Inr (PList (chunks ! k))
                   \<and> (\<exists>dbr sel. py_getitem job_payload ''data_byte_ranges'' = Inr dbr
                         \<and> py_getitem sent ''data_byte_ranges'' = Inr (PList sel)
                         \<and> length sel = length (chunks ! k)
                         \<and> (\<forall>j < length sel. \<exists>i. py_int (chunks ! k ! j) = Inr i
                                                \<and> py_getitem_int dbr i = Inr (sel ! j))))
               \<and> (\<forall>ranges. call_ids = map (\<lambda>i. PStr (fmt_05d i)) [0..<length ranges]
                     \<and> py_getitem job_payload ''data_byte_ranges'' = Inr (PList ranges) \<longrightarrow>
                     (\<exists>sent. rewrite_payload (PList (chunks ! k)) job_payload
                               = Inr sent
                        \<and> py_getitem sent ''call_ids'' = Inr (PList (chunks ! k))
                        \<and> py_getitem sent ''data_byte_ranges''
                            = Inr (PList (take (nat chunksize)
                                           (drop (k * nat chunksize) ranges))))))"
proof -
  let ?C = "nat chunksize"
  let ?subs = "map (\<lambda>(c, w). Submission w c job_payload) (zip (map PList chunks) workers)"
  from pos have C: "0 < ?C" by simp
  from chunks pos have ch: "chunks = chunks_from 0 ?C call_ids"
    by (simp add: iterchunks_def)
  have it: "py_iterchunks (PList call_ids) (PInt chunksize) = Inr (map PList chunks)"
    using chunks by (simp add: py_iterchunks_def)
  have run: "master_run_job job_payload workers = (ToWorkers ?subs, None)"
    using cfg sc mode ids size it enough some
    by (simp add: master_run_job_def py_eq_str_def submit_chunks_zip)
  have len: "length ?subs = length chunks" using enough by simp
  have each: "subs_k = Submission (workers ! k) (PList (chunks ! k)) job_payload"
    if "k < length chunks" "subs_k = ?subs ! k" for k subs_k
    using that enough by simp
  have slice: "chunks ! k = take ?C (drop (k * ?C) call_ids)" if "k < length chunks" for k
    using chunks_from_nth [OF C, of k 0 call_ids] that ch by simp
  have sent: "py_getitem sent ''call_ids'' = Inr (PList (chunks ! k))
            \<and> (\<exists>dbr sel. py_getitem job_payload ''data_byte_ranges'' = Inr dbr
                  \<and> py_getitem sent ''data_byte_ranges'' = Inr (PList sel)
                  \<and> length sel = length (chunks ! k)
                  \<and> (\<forall>j < length sel. \<exists>i. py_int (chunks ! k ! j) = Inr i
                                         \<and> py_getitem_int dbr i = Inr (sel ! j)))"
    if r: "rewrite_payload (PList (chunks ! k)) job_payload = Inr sent"
    for k sent
  proof -
    from rewrite_payload_sent [OF r] obtain dbr sel where
      a: "py_getitem sent ''call_ids'' = Inr (PList (chunks ! k))"
      and b: "py_getitem job_payload ''data_byte_ranges'' = Inr dbr"
        "select_ranges dbr (chunks ! k) = Inr sel"
        "py_getitem sent ''data_byte_ranges'' = Inr (PList sel)"
      by blast
    from b(2) have l: "length sel = length (chunks ! k)" by (rule select_ranges_length)
    have "\<forall>j < length sel. \<exists>i. py_int (chunks ! k ! j) = Inr i
                                         \<and> py_getitem_int dbr i = Inr (sel ! j)"
      using select_ranges_nth [OF b(2)] l by simp
    with a b l show ?thesis by blast
  qed
  have canon: "\<exists>sent. rewrite_payload (PList (chunks ! k)) job_payload
                               = Inr sent
                        \<and> py_getitem sent ''call_ids'' = Inr (PList (chunks ! k))
                        \<and> py_getitem sent ''data_byte_ranges''
                            = Inr (PList (take ?C (drop (k * ?C) ranges)))"
    if k: "k < length chunks"
      and c: "call_ids = map (\<lambda>i. PStr (fmt_05d i)) [0..<length ranges]"
      and d: "py_getitem job_payload ''data_byte_ranges'' = Inr (PList ranges)"
    for k ranges
  proof -
    let ?idxs = "take ?C (drop (k * ?C) [0..<length ranges])"
    have ck: "chunks ! k = map (\<lambda>i. PStr (fmt_05d i)) ?idxs"
      using slice [OF k] c by (simp add: take_map drop_map)
    have "set ?idxs \<subseteq> set [0..<length ranges]"
      by (meson set_take_subset set_drop_subset subset_trans)
    then have inr: "\<forall>i \<in> set ?idxs. i < length ranges" by auto
    have "map ((!) ranges) ?idxs = take ?C (drop (k * ?C) (map ((!) ranges) [0..<length ranges]))"
      by (simp add: take_map drop_map)
    then have m: "map ((!) ranges) ?idxs = take ?C (drop (k * ?C) ranges)"
      by (simp only: map_nth)
    from rewrite_payload_canonical [OF d inr] show ?thesis
      by (simp only: ck m)
  qed
  show ?thesis
  proof (intro exI [of _ ?subs] conjI allI impI)
    show "master_run_job job_payload workers = (ToWorkers ?subs, None)" by (rule run)
    show "length ?subs = length chunks" by (rule len)
  next
    fix k assume "k < length chunks"
    then show "?subs ! k = Submission (workers ! k) (PList (chunks ! k)) job_payload"
      using each by blast
  next
    fix k assume "k < length chunks"
    then show "chunks ! k = take ?C (drop (k * ?C) call_ids)" by (rule slice)
  next
    fix k sent
    assume "rewrite_payload (PList (chunks ! k)) job_payload = Inr sent"
    from sent [OF this] show "py_getitem sent ''call_ids'' = Inr (PList (chunks ! k))" by blast
  next
    fix k sent
    assume "rewrite_payload (PList (chunks ! k)) job_payload = Inr sent"
    from sent [OF this]
    show "\<exists>dbr sel. py_getitem job_payload ''data_byte_ranges'' = Inr dbr
                         \<and> py_getitem sent ''data_byte_ranges'' = Inr (PList sel)
                         \<and> length sel = length (chunks ! k)
                         \<and> (\<forall>j < length sel. \<exists>i. py_int (chunks ! k ! j) = Inr i
                                                \<and> py_getitem_int dbr i = Inr (sel ! j))"
      by blast
  next
    fix k ranges
    assume "k < length chunks"
      and "call_ids = map (\<lambda>i. PStr (fmt_05d i)) [0..<length ranges]
                     \<and> py_getitem job_payload ''data_byte_ranges'' = Inr (PList ranges)"
    then show "\<exists>sent. rewrite_payload (PList (chunks ! k)) job_payload
                               = Inr sent
                        \<and> py_getitem sent ''call_ids'' = Inr (PList (chunks ! k))
                        \<and> py_getitem sent ''data_byte_ranges''
                            = Inr (PList (take ?C (drop (k * ?C) ranges)))"
      using canon by blast
  qed
qed

text \<open>
  Claim C6, on the code as it is. For the job of ten calls with chunk size 4 and three
  workers, \<open>run_job\<close> submits the chunks of sizes 4, 4 and 2, chunk \<open>k\<close> to worker \<open>k\<close>,
  as the claim says. But each \<open>run_job_on_worker\<close> raises NameError at the call of the
  undefined \<open>get_host_setup_scritp\<close>, before the rewrite of the payload and before the
  post, also when every collaborator succeeds: no payload reaches a worker. The rewrite
  that the function would go on to do gives, for the last chunk, exactly the chunk as
  \<open>call_ids\<close> and the two entries of the original \<open>data_byte_ranges\<close> for its call ids.
\<close>

theorem create_mode_dispatch_never_posts:
  "master_run_job ten_call_payload three_workers
     = (ToWorkers
          [Submission (three_workers ! 0)
             (PList [PStr ''00000'', PStr ''00001'', PStr ''00002'', PStr ''00003''])
             ten_call_payload,
           Submission (three_workers ! 1)
             (PList [PStr ''00004'', PStr ''00005'', PStr ''00006'', PStr ''00007''])
             ten_call_payload,
           Submission (three_workers ! 2)
             (PList [PStr ''00008'', PStr ''00009'']) ten_call_payload],
        None)
   \<and> run_job_on_worker calm_world (three_workers ! 0)
        (PList [PStr ''00000'', PStr ''00001'', PStr ''00002'', PStr ''00003''])
        ten_call_payload = Inl NameError
   \<and> run_job_on_worker calm_world (three_workers ! 1)
        (PList [PStr ''00004'', PStr ''00005'', PStr ''00006'', PStr ''00007''])
        ten_call_payload = Inl NameError
   \<and> run_job_on_worker calm_world (three_workers ! 2)
        (PList [PStr ''00008'', PStr ''00009'']) ten_call_payload = Inl NameError
   \<and> (\<exists>sent. rewrite_payload (PList [PStr ''00008'', PStr ''00009'']) ten_call_payload
                = Inr sent
          \<and> py_getitem sent ''call_ids'' = Inr (PList [PStr ''00008'', PStr ''00009''])
          \<and> py_getitem sent ''data_byte_ranges''
              = Inr (PList [PList [PInt 800, PInt 899], PList [PInt 900, PInt 999]]))"
proof -
  have cfg: "py_getitem ten_call_payload ''config''
               = Inr (PDict [(''standalone'', PDict [(''exec_mode'', PStr ''create'')])])"
    and ids: "py_getitem ten_call_payload ''call_ids'' = Inr (PList ten_call_ids)"
    and size: "py_getitem ten_call_payload ''chunksize'' = Inr (PInt 4)"
    and dbr: "py_getitem ten_call_payload ''data_byte_ranges'' = Inr (PList ten_ranges)"
    by (simp_all add: ten_call_payload_def)
  have it: "py_iterchunks (PList ten_call_ids) (PInt 4)
              = Inr (map PList
                  [[PStr ''00000'', PStr ''00001'', PStr ''00002'', PStr ''00003''],
                   [PStr ''00004'', PStr ''00005'', PStr ''00006'', PStr ''00007''],
                   [PStr ''00008'', PStr ''00009'']])"
    by (simp add: py_iterchunks_def ten_call_chunks)
  have ws: "three_workers = [three_workers ! 0, three_workers ! 1, three_workers ! 2]"
    by (simp add: three_workers_def)
  have "submit_chunks
          (map PList
             [[PStr ''00000'', PStr ''00001'', PStr ''00002'', PStr ''00003''],
              [PStr ''00004'', PStr ''00005'', PStr ''00006'', PStr ''00007''],
              [PStr ''00008'', PStr ''00009'']])
          [three_workers ! 0, three_workers ! 1, three_workers ! 2] ten_call_payload
        = ([Submission (three_workers ! 0)
             (PList [PStr ''00000'', PStr ''00001'', PStr ''00002'', PStr ''00003''])
             ten_call_payload,
           Submission (three_workers ! 1)
             (PList [PStr ''00004'', PStr ''00005'', PStr ''00006'', PStr ''00007''])
             ten_call_payload,
           Submission (three_workers ! 2)
             (PList [PStr ''00008'', PStr ''00009'']) ten_call_payload], None)"
    by simp
  with ws have sub: "submit_chunks
          (map PList
             [[PStr ''00000'', PStr ''00001'', PStr ''00002'', PStr ''00003''],
              [PStr ''00004'', PStr ''00005'', PStr ''00006'', PStr ''00007''],
              [PStr ''00008'', PStr ''00009'']])
          three_workers ten_call_payload
        = ([Submission (three_workers ! 0)
             (PList [PStr ''00000'', PStr ''00001'', PStr ''00002'', PStr ''00003''])
             ten_call_payload,
           Submission (three_workers ! 1)
             (PList [PStr ''00004'', PStr ''00005'', PStr ''00006'', PStr ''00007''])
             ten_call_payload,
           Submission (three_workers ! 2)
             (PList [PStr ''00008'', PStr ''00009'']) ten_call_payload], None)"
    by simp
  have len: "three_workers \<noteq> []" by (simp add: three_workers_def)
  have run: "master_run_job ten_call_payload three_workers
     = (ToWorkers
          [Submission (three_workers ! 0)
             (PList [PStr ''00000'', PStr ''00001'', PStr ''00002'', PStr ''00003''])
             ten_call_payload,
           Submission (three_workers ! 1)
             (PList [PStr ''00004'', PStr ''00005'', PStr ''00006'', PStr ''00007''])
             ten_call_payload,
           Submission (three_workers ! 2)
             (PList [PStr ''00008'', PStr ''00009'']) ten_call_payload],
        None)"
    unfolding master_run_job_def
    by (simp add: cfg ids size it sub len dict_get_def py_eq_str_def del: map_eq_conv list.map)
  have raises: "run_job_on_worker calm_world (three_workers ! k) c ten_call_payload
                  = Inl NameError" if "k < 3" for k c
  proof -
    from that have "k = 0 \<or> k = 1 \<or> k = 2" by auto
    then show ?thesis
      by (auto simp: run_job_on_worker_raises three_workers_def calm_world_def)
  qed
  have "set [8, 9] \<subseteq> {..<length ten_ranges}" by (simp add: ten_ranges_def)
  then have "\<forall>i \<in> set [8, 9 :: nat]. i < length ten_ranges" by auto
  have rw: "\<exists>sent. rewrite_payload (PList [PStr ''00008'', PStr ''00009'']) ten_call_payload
                = Inr sent
          \<and> py_getitem sent ''call_ids'' = Inr (PList [PStr ''00008'', PStr ''00009''])
          \<and> py_getitem sent ''data_byte_ranges''
              = Inr (PList [PList [PInt 800, PInt 899], PList [PInt 900, PInt 999]])"
  proof -
    have f: "map (\<lambda>i. PStr (fmt_05d i)) [8, 9] = [PStr ''00008'', PStr ''00009'']"
      by code_simp
    have g: "map ((!) ten_ranges) [8, 9]
               = [PList [PInt 800, PInt 899], PList [PInt 900, PInt 999]]"
      by (simp add: ten_ranges_def)
    from rewrite_payload_canonical [OF dbr \<open>\<forall>i \<in> set [8, 9 :: nat]. i < length ten_ranges\<close>]
    show ?thesis by (simp only: f g)
  qed
  from run raises [of 0] raises [of 1] raises [of 2] rw show ?thesis by simp
qed

section \<open>Properties of the invocation paths of the handler\<close>

lemma bind_res_Some:
  assumes "bind_res m f = Some (ev, r)"
  shows "(\<exists>e. m = Some (ev, Inl e) \<and> r = Inl e)
       \<or> (\<exists>ev1 x ev2. m = Some (ev1, Inr x) \<and> f x = Some (ev2, r) \<and> ev = ev1 @ ev2)"
  using assms by (auto simp: bind_res_def split: option.splits sum.splits prod.splits)

lemma stop_all_quiet: "quiet (fst (stop_all w bs))"
  by (induction bs) (auto simp: quiet_def split: option.splits prod.splits)

lemma wait_ready_quiet: "wait_ready w h probe msg = Some (ev, r) \<Longrightarrow> quiet ev"
  using stop_all_quiet [of w "backends h"]
  by (auto simp: wait_ready_def raise_def return_def dismantle_def quiet_def
      split: sum.splits option.splits bool.splits prod.splits if_splits)

lemma start_backend_quiet: "start_backend w h b = Some (ev, r) \<Longrightarrow> quiet ev"
proof -
  assume a: "start_backend w h b = Some (ev, r)"
  from bind_res_Some [OF a [unfolded start_backend_def]] show ?thesis
  proof (elim disjE exE conjE)
    fix e assume "call (BackendStart b) (w_backend_start w b) = Some (ev, Inl e)"
    then show ?thesis by (auto simp: call_def quiet_def)
  next
    fix ev1 x ev2
    assume c: "call (BackendStart b) (w_backend_start w b) = Some (ev1, Inr x)"
      and w: "wait_backend_ready w h b = Some (ev2, r)" and e: "ev = ev1 @ ev2"
    from w have "quiet ev2" unfolding wait_backend_ready_def by (rule wait_ready_quiet)
    moreover from c have "ev1 = [BackendStart b]" by (auto simp: call_def)
    ultimately show ?thesis using e by (simp add: quiet_def)
  qed
qed

lemma ensure_ready_quiet:
  assumes "(if \<not> w_proxy_ready_now w b
            then bind_res (start_backend w h b) (\<lambda>_. wait_proxy_ready w h b)
            else return True) = Some (ev, r)"
  shows "quiet ev"
proof (cases "w_proxy_ready_now w b")
  case True
  with assms show ?thesis by (simp add: return_def quiet_def)
next
  case False
  with assms have a: "bind_res (start_backend w h b) (\<lambda>_. wait_proxy_ready w h b) = Some (ev, r)"
    by simp
  from bind_res_Some [OF a] show ?thesis
  proof (elim disjE exE conjE)
    fix e assume "start_backend w h b = Some (ev, Inl e)"
    then show ?thesis by (rule start_backend_quiet)
  next
    fix ev1 x ev2
    assume "start_backend w h b = Some (ev1, Inr x)"
      and "wait_proxy_ready w h b = Some (ev2, r)" and e: "ev = ev1 @ ev2"
    then have "quiet ev1" "quiet ev2"
      by (auto simp: wait_proxy_ready_def dest: start_backend_quiet wait_ready_quiet)
    with e show ?thesis by (simp add: quiet_def)
  qed
qed

lemma single_invoke_cases:
  assumes a: "single_invoke w h b job_payload = Some (ev, r)"
  shows "(quiet ev \<and> (\<exists>e. r = Inl e))
       \<or> (\<exists>ev1 executor_id job_id job_key.
             py_getitem job_payload ''executor_id'' = Inr executor_id
           \<and> py_getitem job_payload ''job_id'' = Inr job_id
           \<and> w_create_job_key w executor_id job_id = Inr job_key
           \<and> quiet ev1
           \<and> ev = ev1
                @ (if py_eq_str (disable_log_monitoring h) ''False'' \<and> \<not> is_lithops_worker h
                   then [LogMonitorStarted job_key b] else [])
                @ [PostRun (if is_lithops_worker h \<or> py_truthy (use_http h)
                            then DirectHttp else SshTunnel) b job_payload]
           \<and> r = (case w_post_run w b job_payload of
                    Inl e \<Rightarrow> Inl e
                  | Inr response \<Rightarrow> py_getitem response ''activationId''))"
proof (cases "py_getitem job_payload ''executor_id''")
  case (Inl e)
  with a have "Some ([], Inl e) = Some (ev, r)" by (simp add: single_invoke_def raise_def)
  then show ?thesis by (auto simp: quiet_def)
next
  case ex: (Inr executor_id)
  show ?thesis
  proof (cases "py_getitem job_payload ''job_id''")
    case (Inl e)
    with a ex have "Some ([], Inl e) = Some (ev, r)" by (simp add: single_invoke_def raise_def)
    then show ?thesis by (auto simp: quiet_def)
  next
    case jb: (Inr job_id)
    show ?thesis
    proof (cases "w_create_job_key w executor_id job_id")
      case (Inl e)
      with a ex jb have "Some ([], Inl e) = Some (ev, r)"
        by (simp add: single_invoke_def raise_def)
      then show ?thesis by (auto simp: quiet_def)
    next
      case key: (Inr job_key)
      let ?A = "if \<not> w_proxy_ready_now w b
                then bind_res (start_backend w h b) (\<lambda>_. wait_proxy_ready w h b)
                else return True"
      let ?M = "if py_eq_str (disable_log_monitoring h) ''False''
                then start_log_monitor w h executor_id job_id b else return ()"
      let ?tr = "if is_lithops_worker h \<or> py_truthy (use_http h) then DirectHttp else SshTunnel"
      let ?P = "case w_post_run w b job_payload of
                  Inl e \<Rightarrow> Some ([PostRun ?tr b job_payload], Inl e)
                | Inr response \<Rightarrow>
                    Some ([PostRun ?tr b job_payload], py_getitem response ''activationId'')"
      let ?mon = "if py_eq_str (disable_log_monitoring h) ''False'' \<and> \<not> is_lithops_worker h
                   then [LogMonitorStarted job_key b] else []"
      have M: "?M = Some (?mon, Inr ())"
        using key by (simp add: start_log_monitor_def return_def)
      have P: "?P = Some ([PostRun ?tr b job_payload],
                 case w_post_run w b job_payload of
                    Inl e \<Rightarrow> Inl e
                  | Inr response \<Rightarrow> py_getitem response ''activationId'')"
        by (simp split: sum.splits)
      have MP: "bind_res ?M (\<lambda>_. ?P) = Some (?mon @ [PostRun ?tr b job_payload],
                 case w_post_run w b job_payload of
                    Inl e \<Rightarrow> Inl e
                  | Inr response \<Rightarrow> py_getitem response ''activationId'')"
        by (simp only: M P) (simp add: bind_res_def)
      from a ex jb key have "bind_res ?A (\<lambda>_. bind_res ?M (\<lambda>_. ?P)) = Some (ev, r)"
        by (simp add: single_invoke_def Let_def)
      from bind_res_Some [OF this] show ?thesis
      proof (elim disjE exE conjE)
        fix e assume "?A = Some (ev, Inl e)" and "r = Inl e"
        then show ?thesis using ensure_ready_quiet by blast
      next
        fix ev1 x ev2
        assume A: "?A = Some (ev1, Inr x)"
          and rest: "bind_res ?M (\<lambda>_. ?P) = Some (ev2, r)" and e: "ev = ev1 @ ev2"
        from A have "quiet ev1" by (rule ensure_ready_quiet)
        moreover from rest MP have "ev2 = ?mon @ [PostRun ?tr b job_payload]"
          and "r = (case w_post_run w b job_payload of
                    Inl e \<Rightarrow> Inl e
                  | Inr response \<Rightarrow> py_getitem response ''activationId'')"
          by simp_all
        ultimately show ?thesis using ex jb key e by blast
      qed
    qed
  qed
qed

lemma monitoring_run:
  "single_invoke calm_world monitoring_handler master_vm job_message
     = Some ([LogMonitorStarted ''e1-00003'' master_vm, PostRun SshTunnel master_vm job_message],
             Inr (PStr ''0123456789ab''))"
  by (simp add: single_invoke_def monitoring_handler_def fleet_handler_def job_message_def
        calm_world_def job_key_of_def bind_res_def return_def start_log_monitor_def
        py_eq_str_def)

lemma default_run:
  "single_invoke calm_world fleet_handler master_vm job_message
     = Some ([PostRun SshTunnel master_vm job_message], Inr (PStr ''0123456789ab''))"
  by (simp add: single_invoke_def fleet_handler_def job_message_def
        calm_world_def job_key_of_def bind_res_def return_def start_log_monitor_def
        py_eq_str_def)

text \<open>
  Claim C10 (as amended). In an invocation of \<open>_single_invoke\<close> the log monitor thread
  is started exactly when the invocation gets past the readiness step (it reaches the
  post of the job), \<open>disable_log_monitoring\<close> is the string \<open>'False'\<close>, and the handler
  does not run on a worker (\<open>_start_log_monitor\<close> starts the thread only under
  \<open>not self.is_lithops_worker\<close>). In particular, with \<open>disable_log_monitoring\<close> left at
  its default \<open>False\<close>, or set to \<open>True\<close>, no log monitor is ever started.
\<close>

theorem log_monitor_condition:
  assumes "single_invoke w h b job_payload = Some (ev, r)"
  shows "list_ex is_monitor ev
           = (disable_log_monitoring h = PStr ''False'' \<and> \<not> is_lithops_worker h
              \<and> list_ex is_post ev)
       \<and> (\<forall>v. disable_log_monitoring h = PBool v \<longrightarrow> \<not> list_ex is_monitor ev)"
  using single_invoke_cases [OF assms]
  by (auto simp: quiet_def py_eq_str_def split: if_splits)

theorem log_monitor_condition_witness:
  "single_invoke calm_world monitoring_handler master_vm job_message
     = Some ([LogMonitorStarted ''e1-00003'' master_vm, PostRun SshTunnel master_vm job_message],
             Inr (PStr ''0123456789ab''))
   \<and> list_ex is_monitor
        [LogMonitorStarted ''e1-00003'' master_vm, PostRun SshTunnel master_vm job_message]
   \<and> disable_log_monitoring monitoring_handler = PStr ''False''
   \<and> \<not> is_lithops_worker monitoring_handler
   \<and> single_invoke calm_world fleet_handler master_vm job_message
       = Some ([PostRun SshTunnel master_vm job_message], Inr (PStr ''0123456789ab''))
   \<and> disable_log_monitoring fleet_handler = PBool False
   \<and> \<not> list_ex is_monitor [PostRun SshTunnel master_vm job_message]"
proof -
  have a: "disable_log_monitoring monitoring_handler = PStr ''False''"
    "\<not> is_lithops_worker monitoring_handler"
    by (simp_all add: monitoring_handler_def fleet_handler_def)
  have p: "list_ex is_post
        [LogMonitorStarted ''e1-00003'' master_vm, PostRun SshTunnel master_vm job_message]"
    by simp
  from log_monitor_condition [OF monitoring_run] a p
  have m: "list_ex is_monitor
        [LogMonitorStarted ''e1-00003'' master_vm, PostRun SshTunnel master_vm job_message]"
    by blast
  have d: "disable_log_monitoring fleet_handler = PBool False"
    by (simp add: fleet_handler_def)
  from log_monitor_condition [OF default_run] d
  have n: "\<not> list_ex is_monitor [PostRun SshTunnel master_vm job_message]"
    by blast
  from monitoring_run default_run a d m n show ?thesis by blast
qed

text \<open>
  The claim as stated fails: on a worker the value is the string \<open>'False'\<close>, the job is
  posted, and no log monitor is started.
\<close>

theorem log_monitor_counterexample:
  "disable_log_monitoring worker_side_handler = PStr ''False''
   \<and> single_invoke calm_world worker_side_handler master_vm job_message
       = Some ([PostRun DirectHttp master_vm job_message], Inr (PStr ''0123456789ab''))"
  by (simp add: single_invoke_def worker_side_handler_def fleet_handler_def job_message_def
        calm_world_def job_key_of_def bind_res_def return_def start_log_monitor_def
        py_eq_str_def)

lemma init_Inr:
  assumes "StandaloneHandler_init w standalone_config = Inr h"
  shows "\<exists>b. create_backend_handler w (config h) (backend_name h) = Inr b
           \<and> provided_backed h
               = (\<not> py_eq_str (exec_mode h) ''create''
                  \<and> ip_address b \<noteq> None \<and> instance_id b \<noteq> None)
           \<and> backends h = (if provided_backed h then [b] else [])"
  using assms unfolding StandaloneHandler_init_def Let_def
  by (auto split: pyval.splits option.splits if_splits sum.splits)

lemma run_job_provided:
  "provided_backed h \<Longrightarrow> backends h = [b] \<Longrightarrow>
   run_job w h job_payload
     = bind_res (single_invoke w h b job_payload) (\<lambda>act_id. return ([], act_id))"
  by (simp add: run_job_def)

lemma run_job_fanout:
  assumes "\<not> provided_backed h" and "run_job w h job_payload = Some (ev, r)"
  shows "ev = []
       \<and> (\<forall>tasks v. r = Inr (tasks, v) \<longrightarrow>
             v = PNone
           \<and> (\<exists>executor_id job_id job_key jd total_calls n.
                 py_getitem job_payload ''executor_id'' = Inr executor_id
               \<and> py_getitem job_payload ''job_id'' = Inr job_id
               \<and> w_create_job_key w executor_id job_id = Inr job_key
               \<and> py_getitem job_payload ''job_description'' = Inr jd
               \<and> py_getitem jd ''total_calls'' = Inr total_calls
               \<and> py_index total_calls = Inr n
               \<and> tasks = map (\<lambda>i. (job_key, fmt_05d i, job_payload)) [0..<nat n]))"
  using assms unfolding run_job_def raise_def return_def
  by (auto split: sum.splits if_splits)

lemma run_job_fanout_returns:
  assumes "\<not> provided_backed h"
    and "py_getitem job_payload ''executor_id'' = Inr executor_id"
    and "py_getitem job_payload ''job_id'' = Inr job_id"
    and "w_create_job_key w executor_id job_id = Inr job_key"
    and "py_getitem job_payload ''job_description'' = Inr jd"
    and "py_getitem jd ''total_calls'' = Inr (PInt n)"
    and "0 < n"
  shows "run_job w h job_payload
           = Some ([], Inr (map (\<lambda>i. (job_key, fmt_05d i, job_payload)) [0..<nat n], PNone))"
  using assms by (simp add: run_job_def return_def)

lemma create_tail_quiet:
  assumes "bind_res (start_backend w h b)
             (\<lambda>_. bind_res (call (SetupProxy b) (w_setup_proxy w b))
                (\<lambda>_. bind_res (wait_proxy_ready w h b) (\<lambda>_. return b))) = Some (ev, r)"
  shows "quiet ev"
proof -
  from bind_res_Some [OF assms] show ?thesis
  proof (elim disjE exE conjE)
    fix e assume "start_backend w h b = Some (ev, Inl e)"
    then show ?thesis by (rule start_backend_quiet)
  next
    fix ev1 x ev2
    assume s: "start_backend w h b = Some (ev1, Inr x)"
      and t: "bind_res (call (SetupProxy b) (w_setup_proxy w b))
                (\<lambda>_. bind_res (wait_proxy_ready w h b) (\<lambda>_. return b)) = Some (ev2, r)"
      and e: "ev = ev1 @ ev2"
    from s have q1: "quiet ev1" by (rule start_backend_quiet)
    from bind_res_Some [OF t] have "quiet ev2"
    proof (elim disjE exE conjE)
      fix e assume "call (SetupProxy b) (w_setup_proxy w b) = Some (ev2, Inl e)"
      then show ?thesis by (auto simp: call_def quiet_def)
    next
      fix ev3 y ev4
      assume c: "call (SetupProxy b) (w_setup_proxy w b) = Some (ev3, Inr y)"
        and u: "bind_res (wait_proxy_ready w h b) (\<lambda>_. return b) = Some (ev4, r)"
        and e2: "ev2 = ev3 @ ev4"
      from c have q3: "quiet ev3" by (auto simp: call_def quiet_def)
      from bind_res_Some [OF u] have "quiet ev4"
        by (auto simp: return_def wait_proxy_ready_def dest: wait_ready_quiet)
      with q3 e2 show ?thesis by (simp add: quiet_def)
    qed
    with q1 e show ?thesis by (simp add: quiet_def)
  qed
qed

lemma create_events:
  assumes c: "create w h name_prefix name_suffix = Some (h', Some (ev, r))"
    and b0: "create_backend_handler w (config h) (backend_name h) = Inr b0"
  shows "filter is_create ev = [BackendCreate name_prefix name_suffix]
       \<and> \<not> list_ex is_monitor ev \<and> \<not> list_ex is_post ev
       \<and> (backends h' = backends h \<or> (\<exists>b. backends h' = backends h @ [b]))
       \<and> config h' = config h \<and> backend_name h' = backend_name h"
proof (cases "w_backend_create w b0 name_prefix name_suffix")
  case (Inl e)
  with c b0 show ?thesis by (auto simp: create_def)
next
  case (Inr b)
  let ?h = "h\<lparr>backends := backends h @ [b]\<rparr>"
  let ?T = "bind_res (start_backend w ?h b)
             (\<lambda>_. bind_res (call (SetupProxy b) (w_setup_proxy w b))
                (\<lambda>_. bind_res (wait_proxy_ready w ?h b) (\<lambda>_. return b)))"
  have eq: "create w h name_prefix name_suffix
          = Some (?h, bind_res (Some ([BackendCreate name_prefix name_suffix], Inr ())) (\<lambda>_. ?T))"
    using b0 Inr by (simp add: create_def Let_def)
  note both = c [unfolded eq option.inject prod.inject]
  from both have "?h = h'" by (rule conjunct1)
  then have h': "h' = ?h" by (rule sym)
  from both
  have t: "bind_res (Some ([BackendCreate name_prefix name_suffix], Inr ())) (\<lambda>_. ?T)
              = Some (ev, r)"
    by (rule conjunct2)
  from bind_res_Some [OF t] obtain ev2 where "?T = Some (ev2, r)"
    and e: "ev = [BackendCreate name_prefix name_suffix] @ ev2"
    by auto
  then have "quiet ev2" using create_tail_quiet by blast
  then have "filter is_create ev2 = []" "\<not> list_ex is_monitor ev2" "\<not> list_ex is_post ev2"
    by (auto simp: quiet_def list_ex_iff filter_empty_conv)
  with e h' show ?thesis by simp
qed

lemma single_invoke_no_create:
  assumes "single_invoke w h b job_payload = Some (ev, r)"
  shows "filter is_create ev = []"
  using single_invoke_cases [OF assms]
  by (auto simp: quiet_def list_ex_iff filter_empty_conv)

lemma thread_invoke_creates_one:
  assumes t: "thread_invoke w h (job_key, call_id, job_payload) = Some (h', Some (ev, r))"
    and b0: "create_backend_handler w (config h) (backend_name h) = Inr b0"
  shows "filter is_create ev = [BackendCreate job_key call_id]
       \<and> (backends h' = backends h \<or> (\<exists>b. backends h' = backends h @ [b]))"
proof -
  from t obtain rc where c: "create w h job_key call_id = Some (h', rc)"
    and br: "bind_res rc
               (\<lambda>b. case set_call_id job_payload call_id of
                       Inl e \<Rightarrow> raise e
                     | Inr job_payload' \<Rightarrow> single_invoke w h' b job_payload') = Some (ev, r)"
    by (auto simp: thread_invoke_def split: option.splits)
  from bind_res_Some [OF br] show ?thesis
  proof (elim disjE exE conjE)
    fix e assume "rc = Some (ev, Inl e)"
    with c create_events [OF _ b0] show ?thesis by blast
  next
    fix ev1 b ev2
    assume rc: "rc = Some (ev1, Inr b)"
      and s: "(case set_call_id job_payload call_id of
                       Inl e \<Rightarrow> raise e
                     | Inr job_payload' \<Rightarrow> single_invoke w h' b job_payload') = Some (ev2, r)"
      and e: "ev = ev1 @ ev2"
    from c rc create_events [OF _ b0]
    have c1: "filter is_create ev1 = [BackendCreate job_key call_id]"
      and bs: "backends h' = backends h \<or> (\<exists>b. backends h' = backends h @ [b])"
      by blast+
    from s have "filter is_create ev2 = []"
      by (auto simp: raise_def split: sum.splits dest: single_invoke_no_create)
    with c1 bs e show ?thesis by simp
  qed
qed

lemma wait_ready_returns:
  assumes "\<forall>timeout. wait_loop (fst probe) timeout (snd probe) \<noteq> None"
  shows "\<exists>ev r. wait_ready w h probe msg = Some (ev, r)"
proof (cases "py_num (start_timeout h)")
  case (Inl e)
  then show ?thesis by (simp add: wait_ready_def raise_def)
next
  case (Inr timeout)
  from assms obtain ok where "wait_loop (fst probe) timeout (snd probe) = Some ok" by auto
  with Inr show ?thesis
    by (cases ok) (auto simp: wait_ready_def return_def split: prod.splits option.splits)
qed

lemma bind_res_returns:
  assumes "\<exists>ev r. m = Some (ev, r)" and "\<And>x. \<exists>ev r. f x = Some (ev, r)"
  shows "\<exists>ev r. bind_res m f = Some (ev, r)"
proof -
  from assms(1) obtain ev r where m: "m = Some (ev, r)" by blast
  show ?thesis
  proof (cases r)
    case (Inl e)
    with m show ?thesis by (simp add: bind_res_def)
  next
    case (Inr x)
    from assms(2) [of x] obtain ev' r' where "f x = Some (ev', r')" by blast
    with m Inr show ?thesis by (simp add: bind_res_def)
  qed
qed

lemma start_backend_returns:
  "polls_end w \<Longrightarrow> \<exists>ev r. start_backend w h b = Some (ev, r)"
  unfolding start_backend_def wait_backend_ready_def
  by (intro bind_res_returns wait_ready_returns) (auto simp: call_def polls_end_def)

lemma wait_proxy_returns:
  "polls_end w \<Longrightarrow> \<exists>ev r. wait_proxy_ready w h b = Some (ev, r)"
  unfolding wait_proxy_ready_def
  by (intro wait_ready_returns) (auto simp: polls_end_def)

lemma single_invoke_returns:
  assumes "polls_end w"
  shows "\<exists>ev r. single_invoke w h b job_payload = Some (ev, r)"
proof -
  have post: "\<exists>ev r. (let tr = (if is_lithops_worker h \<or> py_truthy (use_http h)
                               then DirectHttp else SshTunnel)
              in (case w_post_run w b job_payload of
                 Inl e \<Rightarrow> Some ([PostRun tr b job_payload], Inl e)
               | Inr response \<Rightarrow>
                   Some ([PostRun tr b job_payload], py_getitem response ''activationId'')))
              = Some (ev, r)"
    by (cases "w_post_run w b job_payload") (simp_all add: Let_def)
  have mon: "\<exists>ev r. (if py_eq_str (disable_log_monitoring h) ''False''
                      then start_log_monitor w h executor_id job_id b
                      else return ()) = Some (ev, r)" for executor_id job_id
    by (cases "w_create_job_key w executor_id job_id")
       (simp_all add: start_log_monitor_def return_def raise_def)
  have rdy: "\<exists>ev r. (if \<not> w_proxy_ready_now w b
             then bind_res (start_backend w h b) (\<lambda>_. wait_proxy_ready w h b)
             else return True) = Some (ev, r)"
  proof (cases "w_proxy_ready_now w b")
    case True
    then show ?thesis by (simp add: return_def)
  next
    case False
    have "\<exists>ev r. bind_res (start_backend w h b) (\<lambda>_. wait_proxy_ready w h b) = Some (ev, r)"
      by (rule bind_res_returns [OF start_backend_returns [OF assms]])
         (rule wait_proxy_returns [OF assms])
    with False show ?thesis by simp
  qed
  show ?thesis
  proof (cases "py_getitem job_payload ''executor_id''")
    case (Inl e)
    then show ?thesis by (simp add: single_invoke_def raise_def)
  next
    case ex: (Inr executor_id)
    show ?thesis
    proof (cases "py_getitem job_payload ''job_id''")
      case (Inl e)
      with ex show ?thesis by (simp add: single_invoke_def raise_def)
    next
      case jb: (Inr job_id)
      show ?thesis
      proof (cases "w_create_job_key w executor_id job_id")
        case (Inl e)
        with ex jb show ?thesis by (simp add: single_invoke_def raise_def)
      next
        case (Inr job_key)
        have "\<exists>ev r. bind_res
            (if \<not> w_proxy_ready_now w b
             then bind_res (start_backend w h b) (\<lambda>_. wait_proxy_ready w h b)
             else return True)
            (\<lambda>_. bind_res
               (if py_eq_str (disable_log_monitoring h) ''False''
                then start_log_monitor w h executor_id job_id b
                else return ())
               (\<lambda>_. let tr = (if is_lithops_worker h \<or> py_truthy (use_http h)
                               then DirectHttp else SshTunnel)
                     in (case w_post_run w b job_payload of
                           Inl e \<Rightarrow> Some ([PostRun tr b job_payload], Inl e)
                         | Inr response \<Rightarrow>
                             Some ([PostRun tr b job_payload],
                                   py_getitem response ''activationId'')))) = Some (ev, r)"
          by (rule bind_res_returns [OF rdy], rule bind_res_returns [OF mon], rule post)
        with ex jb Inr show ?thesis by (simp add: single_invoke_def)
      qed
    qed
  qed
qed

lemma create_returns:
  assumes "polls_end w"
  shows "\<exists>h' ev r. create w h name_prefix name_suffix = Some (h', Some (ev, r))"
proof (cases "create_backend_handler w (config h) (backend_name h)")
  case (Inl e)
  then show ?thesis by (simp add: create_def raise_def)
next
  case b0: (Inr b0)
  show ?thesis
  proof (cases "w_backend_create w b0 name_prefix name_suffix")
    case (Inl e)
    with b0 show ?thesis by (simp add: create_def)
  next
    case (Inr b)
    let ?h = "h\<lparr>backends := backends h @ [b]\<rparr>"
    have "\<exists>ev r. bind_res (Some ([BackendCreate name_prefix name_suffix], Inr ()))
                       (\<lambda>_. bind_res (start_backend w ?h b)
                          (\<lambda>_. bind_res (call (SetupProxy b) (w_setup_proxy w b))
                             (\<lambda>_. bind_res (wait_proxy_ready w ?h b)
                                (\<lambda>_. return b)))) = Some (ev, r)"
      using start_backend_returns [OF assms] wait_proxy_returns [OF assms]
      by (intro bind_res_returns) (auto simp: call_def return_def)
    with b0 Inr show ?thesis by (simp add: create_def Let_def)
  qed
qed

lemma thread_invoke_returns:
  assumes "polls_end w"
  shows "\<exists>h' ev r. thread_invoke w h task = Some (h', Some (ev, r))"
proof -
  obtain job_key call_id job_payload where t: "task = (job_key, call_id, job_payload)"
    by (cases task) auto
  from create_returns [OF assms] obtain h' ev r where
    c: "create w h job_key call_id = Some (h', Some (ev, r))" by blast
  have "\<exists>ev' r'. bind_res (Some (ev, r))
               (\<lambda>b. case set_call_id job_payload call_id of
                       Inl e \<Rightarrow> raise e
                     | Inr job_payload' \<Rightarrow> single_invoke w h' b job_payload') = Some (ev', r')"
    using single_invoke_returns [OF assms]
    by (intro bind_res_returns) (auto simp: raise_def split: sum.splits)
  with t c show ?thesis by (simp add: thread_invoke_def)
qed

lemma thread_invoke_fleet:
  assumes t: "thread_invoke w h (job_key, call_id, job_payload) = Some (h', r)"
    and b0: "create_backend_handler w (config h) (backend_name h) = Inr b0"
  shows "backends h' = backends h @ (case w_backend_create w b0 job_key call_id of
                                        Inl e \<Rightarrow> [] | Inr b \<Rightarrow> [b])
       \<and> config h' = config h \<and> backend_name h' = backend_name h"
  using t b0 by (auto simp: thread_invoke_def create_def Let_def split: option.splits sum.splits)

lemma run_tasks_fleet:
  assumes pe: "polls_end w"
  shows "create_backend_handler w (config h1) (backend_name h1) = Inr b0 \<Longrightarrow>
     \<exists>h2 results. run_tasks w h1 tasks = Some (h2, results)
        \<and> length results = length tasks
        \<and> map (\<lambda>er. filter is_create (fst er)) results
            = map (\<lambda>t. [BackendCreate (fst t) (fst (snd t))]) tasks
        \<and> backends h2
            = backends h1 @ concat (map (\<lambda>t. case w_backend_create w b0 (fst t) (fst (snd t)) of
                                               Inl e \<Rightarrow> [] | Inr b' \<Rightarrow> [b']) tasks)"
proof (induction tasks arbitrary: h1)
  case Nil
  then show ?case by simp
next
  case (Cons task tasks)
  obtain job_key call_id job_payload where t: "task = (job_key, call_id, job_payload)"
    by (cases task) auto
  from thread_invoke_returns [OF pe] obtain h' ev r where
    ti: "thread_invoke w h1 (job_key, call_id, job_payload) = Some (h', Some (ev, r))" by blast
  from thread_invoke_creates_one [OF ti Cons.prems]
  have c1: "filter is_create ev = [BackendCreate job_key call_id]" by blast
  from thread_invoke_fleet [OF ti Cons.prems]
  have fl: "backends h' = backends h1 @ (case w_backend_create w b0 job_key call_id of
                                        Inl e \<Rightarrow> [] | Inr b \<Rightarrow> [b])"
    and cf: "config h' = config h1" and bn: "backend_name h' = backend_name h1"
    by blast+
  from Cons.prems cf bn have "create_backend_handler w (config h') (backend_name h') = Inr b0"
    by simp
  from Cons.IH [OF this] obtain h2 results where
    rt: "run_tasks w h' tasks = Some (h2, results)"
    and ln: "length results = length tasks"
    and cr: "map (\<lambda>er. filter is_create (fst er)) results
            = map (\<lambda>t. [BackendCreate (fst t) (fst (snd t))]) tasks"
    and bs: "backends h2
            = backends h' @ concat (map (\<lambda>t. case w_backend_create w b0 (fst t) (fst (snd t)) of
                                               Inl e \<Rightarrow> [] | Inr b' \<Rightarrow> [b']) tasks)"
    by blast
  from ti rt t have "run_tasks w h1 (task # tasks) = Some (h2, (ev, r) # results)" by simp
  moreover from ln have "length ((ev, r) # results) = length (task # tasks)" by simp
  moreover from cr c1 t have "map (\<lambda>er. filter is_create (fst er)) ((ev, r) # results)
            = map (\<lambda>t. [BackendCreate (fst t) (fst (snd t))]) (task # tasks)" by simp
  moreover from bs fl t have "backends h2
            = backends h1 @ concat (map (\<lambda>t. case w_backend_create w b0 (fst t) (fst (snd t)) of
                                               Inl e \<Rightarrow> [] | Inr b' \<Rightarrow> [b']) (task # tasks))"
    by simp
  ultimately show ?case by blast
qed

lemma three_tasks:
  "map (\<lambda>i. (k, fmt_05d i, p)) [0..<nat 3]
     = [(k, ''00000'', p), (k, ''00001'', p), (k, ''00002'', p)]"
proof -
  have "[0..<nat 3] = [0, 1, 2]" by (simp add: upt_rec)
  moreover have "fmt_05d 0 = ''00000''" "fmt_05d 1 = ''00001''" "fmt_05d 2 = ''00002''"
    by code_simp+
  ultimately show ?thesis by simp
qed

lemma init_create_config:
  "\<exists>h. StandaloneHandler_init calm_world create_config = Inr h
       \<and> exec_mode h = PStr ''create''
       \<and> thread_invoke calm_world h (''e1-00003'', ''00000'', three_call_payload)
             = Some (h\<lparr>backends := [new_worker ''e1-00003'' ''00000'']\<rparr>,
                     Some ([BackendCreate ''e1-00003'' ''00000'',
                            BackendStart (new_worker ''e1-00003'' ''00000''),
                            SetupProxy (new_worker ''e1-00003'' ''00000''),
                            PostRun SshTunnel (new_worker ''e1-00003'' ''00000'')
                              (PDict [(''executor_id'', PStr ''e1''), (''job_id'', PStr ''00003''),
                                      (''job_description'',
                                         PDict [(''total_calls'', PInt 3),
                                                (''call_id'', PStr ''00000'')])])],
                           Inr (PStr ''0123456789ab'')))"
  by (simp add: StandaloneHandler_init_def create_config_def create_backend_handler_def
        calm_world_def dict_get_def py_eq_str_def Let_def thread_invoke_def create_def
        bind_res_def return_def call_def start_backend_def wait_backend_ready_def
        wait_proxy_ready_def wait_ready_def set_call_id_def three_call_payload_def
        single_invoke_def job_key_of_def raise_def start_log_monitor_def)

lemma init_consume_config:
  "\<exists>h. StandaloneHandler_init calm_world consume_config = Inr h
       \<and> exec_mode h = PStr ''consume''
       \<and> create_backend_handler calm_world (config h) (backend_name h) = Inr master_vm
       \<and> single_invoke calm_world h master_vm three_call_payload
           = Some ([PostRun SshTunnel master_vm three_call_payload],
                   Inr (PStr ''0123456789ab''))"
  by (simp add: StandaloneHandler_init_def consume_config_def create_backend_handler_def
        calm_world_def dict_get_def py_eq_str_def master_vm_def Let_def
        single_invoke_def three_call_payload_def job_key_of_def bind_res_def return_def)

text \<open>
  Claim C9. For a handler as \<open>__init__\<close> builds it, \<open>provided_backed\<close> holds exactly
  when the mode is not \<open>'create'\<close> and the backend object built from the configuration
  has both an IP address and an instance id. In that case the fleet is that one backend
  and \<open>run_job\<close> is the single invocation on it, whose value (the activation id of the
  response) it returns. In every other case the fleet starts empty, \<open>run_job\<close> makes no
  call of its own on a backend and returns no activation id: when it returns, its value
  is \<open>None\<close> and it has submitted one \<open>_thread_invoke\<close> for each \<open>i\<close> in
  \<open>range(total_calls)\<close>, with call id \<open>"{:05d}".format(i)\<close> and the job payload, and
  for a positive integer \<open>total_calls\<close> (and a payload with its executor id, job id and
  job description) it does return. Each such \<open>_thread_invoke\<close> calls \<open>create\<close> on
  exactly one new instance, named after the job key and the call id, and adds at most
  that one backend to the fleet. Where every readiness wait comes to an end, every
  \<open>_thread_invoke\<close> returns, and the submitted tasks, run one after the other, all
  return: each has asked for exactly one instance, and the fleet has grown by the
  instances whose creation succeeded, in the order of the tasks. So there is one worker
  per call, not per chunk.
\<close>

theorem run_job_routing:
  assumes init: "StandaloneHandler_init w standalone_config = Inr h"
  shows "\<exists>b. create_backend_handler w (config h) (backend_name h) = Inr b
     \<and> provided_backed h
         = (\<not> py_eq_str (exec_mode h) ''create''
            \<and> ip_address b \<noteq> None \<and> instance_id b \<noteq> None)
     \<and> (provided_backed h \<longrightarrow>
           backends h = [b]
         \<and> run_job w h job_payload
             = bind_res (single_invoke w h b job_payload) (\<lambda>act_id. return ([], act_id)))
     \<and> (\<not> provided_backed h \<longrightarrow>
           (\<forall>ev r. run_job w h job_payload = Some (ev, r) \<longrightarrow>
              ev = []
            \<and> (\<forall>tasks v. r = Inr (tasks, v) \<longrightarrow>
                  v = PNone
                \<and> (\<exists>executor_id job_id job_key jd total_calls n.
                      py_getitem job_payload ''executor_id'' = Inr executor_id
                    \<and> py_getitem job_payload ''job_id'' = Inr job_id
                    \<and> w_create_job_key w executor_id job_id = Inr job_key
                    \<and> py_getitem job_payload ''job_description'' = Inr jd
                    \<and> py_getitem jd ''total_calls'' = Inr total_calls
                    \<and> py_index total_calls = Inr n
                    \<and> tasks = map (\<lambda>i. (job_key, fmt_05d i, job_payload)) [0..<nat n])))
         \<and> (\<forall>executor_id job_id job_key jd n.
                py_getitem job_payload ''executor_id'' = Inr executor_id
              \<and> py_getitem job_payload ''job_id'' = Inr job_id
              \<and> w_create_job_key w executor_id job_id = Inr job_key
              \<and> py_getitem job_payload ''job_description'' = Inr jd
              \<and> py_getitem jd ''total_calls'' = Inr (PInt n)
              \<and> 0 < n \<longrightarrow>
                run_job w h job_payload
                  = Some ([], Inr (map (\<lambda>i. (job_key, fmt_05d i, job_payload)) [0..<nat n],
                                   PNone)))
         \<and> (\<forall>h1 job_key call_id task_payload h2 ev r.
                config h1 = config h \<and> backend_name h1 = backend_name h
              \<and> thread_invoke w h1 (job_key, call_id, task_payload) = Some (h2, Some (ev, r))
              \<longrightarrow> filter is_create ev = [BackendCreate job_key call_id]
                \<and> (backends h2 = backends h1 \<or> (\<exists>b'. backends h2 = backends h1 @ [b']))))
     \<and> (backends h = (if provided_backed h then [b] else []))
     \<and> (polls_end w \<longrightarrow>
           (\<forall>h1 task. \<exists>h2 ev r. thread_invoke w h1 task = Some (h2, Some (ev, r))))
     \<and> (polls_end w \<longrightarrow>
           (\<forall>h1 tasks.
              config h1 = config h \<and> backend_name h1 = backend_name h \<longrightarrow>
                (\<exists>h2 results.
                   run_tasks w h1 tasks = Some (h2, results)
                 \<and> length results = length tasks
                 \<and> map (\<lambda>er. filter is_create (fst er)) results
                     = map (\<lambda>t. [BackendCreate (fst t) (fst (snd t))]) tasks
                 \<and> backends h2
                     = backends h1
                       @ concat (map (\<lambda>t. case w_backend_create w b (fst t) (fst (snd t)) of
                                          Inl e \<Rightarrow> [] | Inr b' \<Rightarrow> [b']) tasks))))"
proof -
  from init_Inr [OF init] obtain b where
    b: "create_backend_handler w (config h) (backend_name h) = Inr b"
    and p: "provided_backed h
         = (\<not> py_eq_str (exec_mode h) ''create''
            \<and> ip_address b \<noteq> None \<and> instance_id b \<noteq> None)"
    and bs: "backends h = (if provided_backed h then [b] else [])"
    by blast
  have direct: "backends h = [b]
         \<and> run_job w h job_payload
             = bind_res (single_invoke w h b job_payload) (\<lambda>act_id. return ([], act_id))"
    if "provided_backed h"
    using that bs run_job_provided [of h b w job_payload] by simp
  have fan1: "ev = []
            \<and> (\<forall>tasks v. r = Inr (tasks, v) \<longrightarrow>
                  v = PNone
                \<and> (\<exists>executor_id job_id job_key jd total_calls n.
                      py_getitem job_payload ''executor_id'' = Inr executor_id
                    \<and> py_getitem job_payload ''job_id'' = Inr job_id
                    \<and> w_create_job_key w executor_id job_id = Inr job_key
                    \<and> py_getitem job_payload ''job_description'' = Inr jd
                    \<and> py_getitem jd ''total_calls'' = Inr total_calls
                    \<and> py_index total_calls = Inr n
                    \<and> tasks = map (\<lambda>i. (job_key, fmt_05d i, job_payload)) [0..<nat n]))"
    if "\<not> provided_backed h" "run_job w h job_payload = Some (ev, r)" for ev r
    using that by (rule run_job_fanout)
  have fan2: "run_job w h job_payload
                  = Some ([], Inr (map (\<lambda>i. (job_key, fmt_05d i, job_payload)) [0..<nat n],
                                   PNone))"
    if "\<not> provided_backed h"
      "py_getitem job_payload ''executor_id'' = Inr executor_id
              \<and> py_getitem job_payload ''job_id'' = Inr job_id
              \<and> w_create_job_key w executor_id job_id = Inr job_key
              \<and> py_getitem job_payload ''job_description'' = Inr jd
              \<and> py_getitem jd ''total_calls'' = Inr (PInt n)
              \<and> 0 < n"
    for executor_id job_id job_key jd n
    using that run_job_fanout_returns [of h job_payload executor_id job_id w job_key jd n]
    by blast
  have one: "filter is_create ev = [BackendCreate job_key call_id]
                \<and> (backends h2 = backends h1 \<or> (\<exists>b'. backends h2 = backends h1 @ [b']))"
    if "config h1 = config h \<and> backend_name h1 = backend_name h
              \<and> thread_invoke w h1 (job_key, call_id, task_payload) = Some (h2, Some (ev, r))"
    for h1 job_key call_id task_payload h2 ev r
  proof -
    from that b have "create_backend_handler w (config h1) (backend_name h1) = Inr b" by simp
    with that thread_invoke_creates_one show ?thesis by blast
  qed
  have returns: "\<exists>h2 ev r. thread_invoke w h1 task = Some (h2, Some (ev, r))"
    if "polls_end w" for h1 task
    using that by (rule thread_invoke_returns)
  have runs: "\<exists>h2 results.
                   run_tasks w h1 tasks = Some (h2, results)
                 \<and> length results = length tasks
                 \<and> map (\<lambda>er. filter is_create (fst er)) results
                     = map (\<lambda>t. [BackendCreate (fst t) (fst (snd t))]) tasks
                 \<and> backends h2
                     = backends h1
                       @ concat (map (\<lambda>t. case w_backend_create w b (fst t) (fst (snd t)) of
                                          Inl e \<Rightarrow> [] | Inr b' \<Rightarrow> [b']) tasks)"
    if pe: "polls_end w" and same: "config h1 = config h \<and> backend_name h1 = backend_name h"
    for h1 tasks
  proof -
    from same b have "create_backend_handler w (config h1) (backend_name h1) = Inr b" by simp
    with pe show ?thesis by (rule run_tasks_fleet)
  qed
  show ?thesis
    apply (rule exI [of _ b])
    apply (intro conjI impI allI)
    subgoal by (rule b)
    subgoal by (rule p)
    subgoal using direct by blast
    subgoal using direct by blast
    subgoal using fan1 by blast
    subgoal using fan1 by blast
    subgoal using fan1 by blast
    subgoal using fan2 by blast
    subgoal using one by blast
    subgoal using one by blast
    subgoal by (rule bs)
    subgoal using returns by blast
    subgoal using runs by blast
    done
qed

theorem run_job_routing_witness:
  "(\<exists>h. StandaloneHandler_init calm_world create_config = Inr h
        \<and> \<not> provided_backed h
        \<and> backends h = []
        \<and> run_job calm_world h three_call_payload
            = Some ([], Inr ([(''e1-00003'', ''00000'', three_call_payload),
                              (''e1-00003'', ''00001'', three_call_payload),
                              (''e1-00003'', ''00002'', three_call_payload)], PNone))
        \<and> thread_invoke calm_world h (''e1-00003'', ''00000'', three_call_payload)
            = Some (h\<lparr>backends := [new_worker ''e1-00003'' ''00000'']\<rparr>,
                    Some ([BackendCreate ''e1-00003'' ''00000'',
                           BackendStart (new_worker ''e1-00003'' ''00000''),
                           SetupProxy (new_worker ''e1-00003'' ''00000''),
                           PostRun SshTunnel (new_worker ''e1-00003'' ''00000'')
                             (PDict [(''executor_id'', PStr ''e1''), (''job_id'', PStr ''00003''),
                                     (''job_description'',
                                        PDict [(''total_calls'', PInt 3),
                                               (''call_id'', PStr ''00000'')])])],
                          Inr (PStr ''0123456789ab'')))
        \<and> (\<exists>h' results.
              run_tasks calm_world h
                [(''e1-00003'', ''00000'', three_call_payload),
                 (''e1-00003'', ''00001'', three_call_payload),
                 (''e1-00003'', ''00002'', three_call_payload)] = Some (h', results)
            \<and> length results = 3
            \<and> map (\<lambda>er. filter is_create (fst er)) results
                = [[BackendCreate ''e1-00003'' ''00000''],
                   [BackendCreate ''e1-00003'' ''00001''],
                   [BackendCreate ''e1-00003'' ''00002'']]
            \<and> backends h'
                = [new_worker ''e1-00003'' ''00000'', new_worker ''e1-00003'' ''00001'',
                   new_worker ''e1-00003'' ''00002'']))
   \<and> (\<exists>h. StandaloneHandler_init calm_world consume_config = Inr h
        \<and> provided_backed h
        \<and> backends h = [master_vm]
        \<and> run_job calm_world h three_call_payload
            = Some ([PostRun SshTunnel master_vm three_call_payload],
                    Inr ([], PStr ''0123456789ab'')))"
proof -
  from init_create_config obtain hk where
    ik: "StandaloneHandler_init calm_world create_config = Inr hk"
    and mk: "exec_mode hk = PStr ''create''"
    and r0: "thread_invoke calm_world hk (''e1-00003'', ''00000'', three_call_payload)
            = Some (hk\<lparr>backends := [new_worker ''e1-00003'' ''00000'']\<rparr>,
                    Some ([BackendCreate ''e1-00003'' ''00000'',
                           BackendStart (new_worker ''e1-00003'' ''00000''),
                           SetupProxy (new_worker ''e1-00003'' ''00000''),
                           PostRun SshTunnel (new_worker ''e1-00003'' ''00000'')
                             (PDict [(''executor_id'', PStr ''e1''), (''job_id'', PStr ''00003''),
                                     (''job_description'',
                                        PDict [(''total_calls'', PInt 3),
                                               (''call_id'', PStr ''00000'')])])],
                          Inr (PStr ''0123456789ab'')))"
    by blast
  have l: "py_getitem three_call_payload ''executor_id'' = Inr (PStr ''e1'')
              \<and> py_getitem three_call_payload ''job_id'' = Inr (PStr ''00003'')
              \<and> w_create_job_key calm_world (PStr ''e1'') (PStr ''00003'') = Inr ''e1-00003''
              \<and> py_getitem three_call_payload ''job_description''
                  = Inr (PDict [(''total_calls'', PInt 3)])
              \<and> py_getitem (PDict [(''total_calls'', PInt 3)]) ''total_calls'' = Inr (PInt 3)
              \<and> (0::int) < 3"
    by (simp add: three_call_payload_def calm_world_def job_key_of_def)
  have calm: "polls_end calm_world"
    by (auto simp: polls_end_def calm_world_def)
  have wc: "w_backend_create calm_world = (\<lambda>b name_prefix name_suffix.
              Inr (new_worker name_prefix name_suffix))"
    by (simp add: calm_world_def)
  from run_job_routing [OF ik, of three_call_payload]
  have create_case: "\<not> provided_backed hk
        \<and> backends hk = []
        \<and> run_job calm_world hk three_call_payload
            = Some ([], Inr ([(''e1-00003'', ''00000'', three_call_payload),
                              (''e1-00003'', ''00001'', three_call_payload),
                              (''e1-00003'', ''00002'', three_call_payload)], PNone))
        \<and> (\<exists>h' results.
              run_tasks calm_world hk
                [(''e1-00003'', ''00000'', three_call_payload),
                 (''e1-00003'', ''00001'', three_call_payload),
                 (''e1-00003'', ''00002'', three_call_payload)] = Some (h', results)
            \<and> length results = 3
            \<and> map (\<lambda>er. filter is_create (fst er)) results
                = [[BackendCreate ''e1-00003'' ''00000''],
                   [BackendCreate ''e1-00003'' ''00001''],
                   [BackendCreate ''e1-00003'' ''00002'']]
            \<and> backends h'
                = [new_worker ''e1-00003'' ''00000'', new_worker ''e1-00003'' ''00001'',
                   new_worker ''e1-00003'' ''00002''])"
  proof (elim exE conjE)
    fix b :: backend
    assume cb: "create_backend_handler calm_world (config hk) (backend_name hk) = Inr b"
      and pb: "provided_backed hk
         = (\<not> py_eq_str (exec_mode hk) ''create''
            \<and> ip_address b \<noteq> None \<and> instance_id b \<noteq> None)"
      and direct: "provided_backed hk \<longrightarrow>
           backends hk = [b]
         \<and> run_job calm_world hk three_call_payload
             = bind_res (single_invoke calm_world hk b three_call_payload) (\<lambda>act_id. return ([], act_id))"
      and fan: "\<not> provided_backed hk \<longrightarrow>
           (\<forall>ev r. run_job calm_world hk three_call_payload = Some (ev, r) \<longrightarrow>
              ev = []
            \<and> (\<forall>tasks v. r = Inr (tasks, v) \<longrightarrow>
                  v = PNone
                \<and> (\<exists>executor_id job_id job_key jd total_calls n.
                      py_getitem three_call_payload ''executor_id'' = Inr executor_id
                    \<and> py_getitem three_call_payload ''job_id'' = Inr job_id
                    \<and> w_create_job_key calm_world executor_id job_id = Inr job_key
                    \<and> py_getitem three_call_payload ''job_description'' = Inr jd
                    \<and> py_getitem jd ''total_calls'' = Inr total_calls
                    \<and> py_index total_calls = Inr n
                    \<and> tasks = map (\<lambda>i. (job_key, fmt_05d i, three_call_payload)) [0..<nat n])))
         \<and> (\<forall>executor_id job_id job_key jd n.
                py_getitem three_call_payload ''executor_id'' = Inr executor_id
              \<and> py_getitem three_call_payload ''job_id'' = Inr job_id
              \<and> w_create_job_key calm_world executor_id job_id = Inr job_key
              \<and> py_getitem three_call_payload ''job_description'' = Inr jd
              \<and> py_getitem jd ''total_calls'' = Inr (PInt n)
              \<and> 0 < n \<longrightarrow>
                run_job calm_world hk three_call_payload
                  = Some ([], Inr (map (\<lambda>i. (job_key, fmt_05d i, three_call_payload)) [0..<nat n],
                                   PNone)))
         \<and> (\<forall>h1 job_key call_id task_payload h2 ev r.
                config h1 = config hk \<and> backend_name h1 = backend_name hk
              \<and> thread_invoke calm_world h1 (job_key, call_id, task_payload) = Some (h2, Some (ev, r))
              \<longrightarrow> filter is_create ev = [BackendCreate job_key call_id]
                \<and> (backends h2 = backends h1 \<or> (\<exists>b'. backends h2 = backends h1 @ [b'])))"
      and fleet: "backends hk = (if provided_backed hk then [b] else [])"
      and returns: "polls_end calm_world \<longrightarrow>
           (\<forall>h1 task. \<exists>h2 ev r. thread_invoke calm_world h1 task = Some (h2, Some (ev, r)))"
      and runs: "polls_end calm_world \<longrightarrow>
           (\<forall>h1 tasks.
              config h1 = config hk \<and> backend_name h1 = backend_name hk \<longrightarrow>
                (\<exists>h2 results.
                   run_tasks calm_world h1 tasks = Some (h2, results)
                 \<and> length results = length tasks
                 \<and> map (\<lambda>er. filter is_create (fst er)) results
                     = map (\<lambda>t. [BackendCreate (fst t) (fst (snd t))]) tasks
                 \<and> backends h2
                     = backends h1
                       @ concat (map (\<lambda>t. case w_backend_create calm_world b (fst t) (fst (snd t)) of
                                          Inl e \<Rightarrow> [] | Inr b' \<Rightarrow> [b']) tasks)))"
    from pb mk have np: "\<not> provided_backed hk" by (simp add: py_eq_str_def)
    with fleet have bsk: "backends hk = []" by simp
    from np fan have "\<forall>executor_id job_id job_key jd n.
                py_getitem three_call_payload ''executor_id'' = Inr executor_id
              \<and> py_getitem three_call_payload ''job_id'' = Inr job_id
              \<and> w_create_job_key calm_world executor_id job_id = Inr job_key
              \<and> py_getitem three_call_payload ''job_description'' = Inr jd
              \<and> py_getitem jd ''total_calls'' = Inr (PInt n)
              \<and> 0 < n \<longrightarrow>
                run_job calm_world hk three_call_payload
                  = Some ([], Inr (map (\<lambda>i. (job_key, fmt_05d i, three_call_payload)) [0..<nat n],
                                   PNone))"
      by (elim impE conjE)
    with l have "run_job calm_world hk three_call_payload
          = Some ([], Inr (map (\<lambda>i. (''e1-00003'', fmt_05d i, three_call_payload)) [0..<nat 3],
                           PNone))"
      by blast
    then have rj: "run_job calm_world hk three_call_payload
            = Some ([], Inr ([(''e1-00003'', ''00000'', three_call_payload),
                              (''e1-00003'', ''00001'', three_call_payload),
                              (''e1-00003'', ''00002'', three_call_payload)], PNone))"
      by (simp only: three_tasks)
    from runs calm
    have "\<forall>h1 tasks.
              config h1 = config hk \<and> backend_name h1 = backend_name hk \<longrightarrow>
                (\<exists>h2 results.
                   run_tasks calm_world h1 tasks = Some (h2, results)
                 \<and> length results = length tasks
                 \<and> map (\<lambda>er. filter is_create (fst er)) results
                     = map (\<lambda>t. [BackendCreate (fst t) (fst (snd t))]) tasks
                 \<and> backends h2
                     = backends h1
                       @ concat (map (\<lambda>t. case w_backend_create calm_world b (fst t) (fst (snd t)) of
                                          Inl e \<Rightarrow> [] | Inr b' \<Rightarrow> [b']) tasks))"
      by (rule mp)
    from this [THEN spec, THEN spec, of hk
        "[(''e1-00003'', ''00000'', three_call_payload),
          (''e1-00003'', ''00001'', three_call_payload),
          (''e1-00003'', ''00002'', three_call_payload)]"]
    have all: "(\<exists>h' results.
              run_tasks calm_world hk
                [(''e1-00003'', ''00000'', three_call_payload),
                 (''e1-00003'', ''00001'', three_call_payload),
                 (''e1-00003'', ''00002'', three_call_payload)] = Some (h', results)
            \<and> length results = 3
            \<and> map (\<lambda>er. filter is_create (fst er)) results
                = [[BackendCreate ''e1-00003'' ''00000''],
                   [BackendCreate ''e1-00003'' ''00001''],
                   [BackendCreate ''e1-00003'' ''00002'']]
            \<and> backends h'
                = [new_worker ''e1-00003'' ''00000'', new_worker ''e1-00003'' ''00001'',
                   new_worker ''e1-00003'' ''00002''])"
      by (simp add: wc bsk numeral_3_eq_3 del: run_tasks.simps)
    from np bsk rj all show ?thesis by (intro conjI)
  qed
  from init_consume_config obtain hc where
    ic: "StandaloneHandler_init calm_world consume_config = Inr hc"
    and mc: "exec_mode hc = PStr ''consume''"
    and bc: "create_backend_handler calm_world (config hc) (backend_name hc) = Inr master_vm"
    and sc: "single_invoke calm_world hc master_vm three_call_payload
           = Some ([PostRun SshTunnel master_vm three_call_payload],
                   Inr (PStr ''0123456789ab''))"
    by blast
  from run_job_routing [OF ic, of three_call_payload]
  have consume_case: "provided_backed hc
        \<and> backends hc = [master_vm]
        \<and> run_job calm_world hc three_call_payload
            = Some ([PostRun SshTunnel master_vm three_call_payload],
                    Inr ([], PStr ''0123456789ab''))"
  proof (elim exE conjE)
    fix b :: backend
    assume cb: "create_backend_handler calm_world (config hc) (backend_name hc) = Inr b"
      and pb: "provided_backed hc
         = (\<not> py_eq_str (exec_mode hc) ''create''
            \<and> ip_address b \<noteq> None \<and> instance_id b \<noteq> None)"
      and direct: "provided_backed hc \<longrightarrow>
           backends hc = [b]
         \<and> run_job calm_world hc three_call_payload
             = bind_res (single_invoke calm_world hc b three_call_payload) (\<lambda>act_id. return ([], act_id))"
      and fan: "\<not> provided_backed hc \<longrightarrow>
           (\<forall>ev r. run_job calm_world hc three_call_payload = Some (ev, r) \<longrightarrow>
              ev = []
            \<and> (\<forall>tasks v. r = Inr (tasks, v) \<longrightarrow>
                  v = PNone
                \<and> (\<exists>executor_id job_id job_key jd total_calls n.
                      py_getitem three_call_payload ''executor_id'' = Inr executor_id
                    \<and> py_getitem three_call_payload ''job_id'' = Inr job_id
                    \<and> w_create_job_key calm_world executor_id job_id = Inr job_key
                    \<and> py_getitem three_call_payload ''job_description'' = Inr jd
                    \<and> py_getitem jd ''total_calls'' = Inr total_calls
                    \<and> py_index total_calls = Inr n
                    \<and> tasks = map (\<lambda>i. (job_key, fmt_05d i, three_call_payload)) [0..<nat n])))
         \<and> (\<forall>executor_id job_id job_key jd n.
                py_getitem three_call_payload ''executor_id'' = Inr executor_id
              \<and> py_getitem three_call_payload ''job_id'' = Inr job_id
              \<and> w_create_job_key calm_world executor_id job_id = Inr job_key
              \<and> py_getitem three_call_payload ''job_description'' = Inr jd
              \<and> py_getitem jd ''total_calls'' = Inr (PInt n)
              \<and> 0 < n \<longrightarrow>
                run_job calm_world hc three_call_payload
                  = Some ([], Inr (map (\<lambda>i. (job_key, fmt_05d i, three_call_payload)) [0..<nat n],
                                   PNone)))
         \<and> (\<forall>h1 job_key call_id task_payload h2 ev r.
                config h1 = config hc \<and> backend_name h1 = backend_name hc
              \<and> thread_invoke calm_world h1 (job_key, call_id, task_payload) = Some (h2, Some (ev, r))
              \<longrightarrow> filter is_create ev = [BackendCreate job_key call_id]
                \<and> (backends h2 = backends h1 \<or> (\<exists>b'. backends h2 = backends h1 @ [b'])))"
      and fleet: "backends hc = (if provided_backed hc then [b] else [])"
      and returns: "polls_end calm_world \<longrightarrow>
           (\<forall>h1 task. \<exists>h2 ev r. thread_invoke calm_world h1 task = Some (h2, Some (ev, r)))"
      and runs: "polls_end calm_world \<longrightarrow>
           (\<forall>h1 tasks.
              config h1 = config hc \<and> backend_name h1 = backend_name hc \<longrightarrow>
                (\<exists>h2 results.
                   run_tasks calm_world h1 tasks = Some (h2, results)
                 \<and> length results = length tasks
                 \<and> map (\<lambda>er. filter is_create (fst er)) results
                     = map (\<lambda>t. [BackendCreate (fst t) (fst (snd t))]) tasks
                 \<and> backends h2
                     = backends h1
                       @ concat (map (\<lambda>t. case w_backend_create calm_world b (fst t) (fst (snd t)) of
                                          Inl e \<Rightarrow> [] | Inr b' \<Rightarrow> [b']) tasks)))"
    from cb bc have b: "b = master_vm" by simp
    from pb mc b have pp: "provided_backed hc" by (simp add: py_eq_str_def master_vm_def)
    with direct b have "backends hc = [master_vm]"
      and "run_job calm_world hc three_call_payload
            = bind_res (single_invoke calm_world hc master_vm three_call_payload)
                (\<lambda>act_id. return ([], act_id))"
      by simp_all
    with pp sc show ?thesis by (simp add: bind_res_def return_def)
  qed
  note k1 = create_case [THEN conjunct1]
  note k2 = create_case [THEN conjunct2, THEN conjunct1]
  note k3 = create_case [THEN conjunct2, THEN conjunct2, THEN conjunct1]
  note k4 = create_case [THEN conjunct2, THEN conjunct2, THEN conjunct2]
  from ik k1 k2 k3 r0 k4 have k: "StandaloneHandler_init calm_world create_config = Inr hk
        \<and> \<not> provided_backed hk
        \<and> backends hk = []
        \<and> run_job calm_world hk three_call_payload
            = Some ([], Inr ([(''e1-00003'', ''00000'', three_call_payload),
                              (''e1-00003'', ''00001'', three_call_payload),
                              (''e1-00003'', ''00002'', three_call_payload)], PNone))
        \<and> thread_invoke calm_world hk (''e1-00003'', ''00000'', three_call_payload)
            = Some (hk\<lparr>backends := [new_worker ''e1-00003'' ''00000'']\<rparr>,
                    Some ([BackendCreate ''e1-00003'' ''00000'',
                           BackendStart (new_worker ''e1-00003'' ''00000''),
                           SetupProxy (new_worker ''e1-00003'' ''00000''),
                           PostRun SshTunnel (new_worker ''e1-00003'' ''00000'')
                             (PDict [(''executor_id'', PStr ''e1''), (''job_id'', PStr ''00003''),
                                     (''job_description'',
                                        PDict [(''total_calls'', PInt 3),
                                               (''call_id'', PStr ''00000'')])])],
                          Inr (PStr ''0123456789ab'')))
        \<and> (\<exists>h' results.
              run_tasks calm_world hk
                [(''e1-00003'', ''00000'', three_call_payload),
                 (''e1-00003'', ''00001'', three_call_payload),
                 (''e1-00003'', ''00002'', three_call_payload)] = Some (h', results)
            \<and> length results = 3
            \<and> map (\<lambda>er. filter is_create (fst er)) results
                = [[BackendCreate ''e1-00003'' ''00000''],
                   [BackendCreate ''e1-00003'' ''00001''],
                   [BackendCreate ''e1-00003'' ''00002'']]
            \<and> backends h'
                = [new_worker ''e1-00003'' ''00000'', new_worker ''e1-00003'' ''00001'',
                   new_worker ''e1-00003'' ''00002''])"
    by (intro conjI)
  from ic consume_case have c: "StandaloneHandler_init calm_world consume_config = Inr hc
        \<and> provided_backed hc
        \<and> backends hc = [master_vm]
        \<and> run_job calm_world hc three_call_payload
            = Some ([PostRun SshTunnel master_vm three_call_payload],
                    Inr ([], PStr ''0123456789ab''))"
    by (rule conjI)
  show ?thesis
    by (rule conjI, rule exI [of _ hk], rule k, rule exI [of _ hc], rule c)
qed


end
